theory Spec2Isabelle
  imports Main "HOL-Library.Sublist"
begin

section \<open>The RouteLLM notebook as a straight-line program\<close>

text \<open>
  The repository is one Colab notebook,
  \<^verbatim>\<open>Gemma/[Gemma_2]Using_Gemini_and_Gemma_with_RouteLLM.ipynb\<close>. Its eleven code
  cells hold no function, class, loop or branch: each is a short sequence of
  statements, and every statement is a call into something outside the notebook
  (the Colab secret store, the shell, \<^verbatim>\<open>subprocess\<close>, \<^verbatim>\<open>time\<close>, the
  \<^verbatim>\<open>routellm\<close> library). The model keeps exactly that shape: a statement is a state
  transformer that may raise, a cell is the sequence of its statements, and the
  notebook is the sequence of its cells. Whatever lies outside the notebook is a
  parameter, the \<open>world\<close>, which decides the result of each call from the history
  of calls made so far.
\<close>

subsection \<open>External objects\<close>

text \<open>
  The objects the notebook receives from libraries, reduced to the attributes the
  notebook reads or supplies: the keyword arguments of \<^verbatim>\<open>Controller(...)\<close>, the
  command of a \<^verbatim>\<open>subprocess.Popen\<close>, and of a chat response the fields
  \<^verbatim>\<open>model\<close> and \<^verbatim>\<open>choices[i].message.content\<close>.
\<close>

record chat_message =
  role :: string
  content :: string

record choice =
  message :: chat_message

record response =
  model :: string
  choices :: "choice list"

record controller =
  routers :: "string list"
  strong_model :: string
  weak_model :: string

record popen =
  args :: string
  pid :: nat

datatype pyval =
    VModule string
  | VClass string
  | VProcess popen
  | VClient controller
  | VResponse response

datatype exn =
    NameError string
  | AttributeError
  | IndexError
  | ValueError
  | ExternalError string

subsection \<open>Calls, state and outcomes\<close>

text \<open>
  An event is one call that leaves the notebook, with its arguments. The last four
  are the methods of a \<^verbatim>\<open>subprocess.Popen\<close> object by which a program observes or
  ends a child process; they are part of the vocabulary so that their absence from
  a run can be stated.
\<close>

datatype event =
    Import string
  | SecretGet string
  | SetEnv string string
  | System string
  | Popen string
  | Sleep nat
  | ControllerInit "string list" string string
  | ChatCreate controller string "chat_message list"
  | Print string
  | Poll popen
  | Wait popen
  | Terminate popen
  | Kill popen

record nstate =
  environ :: "string \<rightharpoonup> string"
  globals :: "string \<rightharpoonup> pyval"
  trace :: "event list"

datatype outcome = Done nstate | Raised exn nstate

fun final :: "outcome \<Rightarrow> nstate" where
  "final (Done s) = s"
| "final (Raised e s) = s"

fun completed :: "outcome \<Rightarrow> bool" where
  "completed (Done s) = True"
| "completed (Raised e s) = False"

text \<open>
  The world answers each fallible call, given the calls made before it:
  \<^verbatim>\<open>import\<close> (an exception or success), \<^verbatim>\<open>userdata.get\<close> (an exception or the
  secret), \<^verbatim>\<open>subprocess.Popen(cmd, shell=True)\<close> (an exception or the child's pid),
  \<^verbatim>\<open>Controller(...)\<close> (an exception or success) and
  \<^verbatim>\<open>client.chat.completions.create\<close> (an exception or the response).
  A \<^verbatim>\<open>!\<close> line is IPython's \<^verbatim>\<open>get_ipython().system(cmd)\<close>: the command ends
  with an exit status, \<open>shell_status\<close>, zero for success; IPython raises nothing
  whatever the status is and returns nothing to the statement. \<^verbatim>\<open>time.sleep\<close> has
  no entry here.
\<close>

record world =
  import_module :: "event list \<Rightarrow> string \<Rightarrow> exn option"
  userdata_get :: "event list \<Rightarrow> string \<Rightarrow> exn + string"
  popen_spawn :: "event list \<Rightarrow> string \<Rightarrow> exn + nat"
  controller_init :: "event list \<Rightarrow> string list \<Rightarrow> string \<Rightarrow> string \<Rightarrow> exn option"
  chat_create :: "event list \<Rightarrow> controller \<Rightarrow> string \<Rightarrow> chat_message list \<Rightarrow> exn + response"
  shell_status :: "event list \<Rightarrow> string \<Rightarrow> nat"

definition initial :: "(string \<rightharpoonup> string) \<Rightarrow> nstate" where
  "initial env0 = \<lparr>environ = env0, globals = Map.empty, trace = []\<rparr>"

definition emit :: "event \<Rightarrow> nstate \<Rightarrow> nstate" where
  "emit ev s = s\<lparr>trace := trace s @ [ev]\<rparr>"

definition bind_name :: "string \<Rightarrow> pyval \<Rightarrow> nstate \<Rightarrow> nstate" where
  "bind_name x v s = s\<lparr>globals := (globals s)(x \<mapsto> v)\<rparr>"

text \<open>Statements run in order; the first exception ends the sequence.\<close>

fun seq :: "(nstate \<Rightarrow> outcome) list \<Rightarrow> nstate \<Rightarrow> outcome" where
  "seq [] s = Done s"
| "seq (f # fs) s = (case f s of Done s' \<Rightarrow> seq fs s' | Raised e s' \<Rightarrow> Raised e s')"

text \<open>Reading a global name: \<^verbatim>\<open>NameError\<close> when it is unbound.\<close>

definition lookup :: "string \<Rightarrow> (pyval \<Rightarrow> nstate \<Rightarrow> outcome) \<Rightarrow> nstate \<Rightarrow> outcome" where
  "lookup x k s = (case globals s x of None \<Rightarrow> Raised (NameError x) s | Some v \<Rightarrow> k v s)"

text \<open>
  Using a module's attribute through the name \<open>x\<close>: the name must be bound, and
  bound to that module.
\<close>

definition via_module :: "string \<Rightarrow> string \<Rightarrow> (nstate \<Rightarrow> outcome) \<Rightarrow> nstate \<Rightarrow> outcome" where
  "via_module x m k =
     lookup x (\<lambda>v s. if v = VModule m then k s else Raised AttributeError s)"

subsection \<open>The statements of the notebook\<close>

text \<open>\<^verbatim>\<open>import m\<close> and \<^verbatim>\<open>from p import x\<close>: run the import, bind the name.\<close>

definition py_import :: "world \<Rightarrow> string \<Rightarrow> string \<Rightarrow> pyval \<Rightarrow> nstate \<Rightarrow> outcome" where
  "py_import w m x v s =
     (case import_module w (trace s) m of
        Some e \<Rightarrow> Raised e (emit (Import m) s)
      | None \<Rightarrow> Done (bind_name x v (emit (Import m) s)))"

text \<open>
  \<^verbatim>\<open>os.environ[k] = userdata.get(n)\<close>: Python evaluates the right-hand side first,
  then the target.
\<close>

text \<open>
  \<^verbatim>\<open>os.environ[k] = v\<close> hands the encoded name and value to \<^verbatim>\<open>putenv\<close> before it
  stores them. That call raises \<^verbatim>\<open>ValueError\<close> for an empty name, a name with
  \<^verbatim>\<open>=\<close> in it, and a name or value with a NUL character; nothing is stored then.
  A string here is the byte string that the file-system encoding gives; a
  \<^verbatim>\<open>str\<close> that has no such encoding is outside the type.
\<close>

definition putenv_rejects :: "string \<Rightarrow> string \<Rightarrow> bool" where
  "putenv_rejects k v =
     (k = [] \<or> CHR ''='' \<in> set k \<or> CHR 0x00 \<in> set k \<or> CHR 0x00 \<in> set v)"

definition environ_assign :: "string \<Rightarrow> string \<Rightarrow> nstate \<Rightarrow> outcome" where
  "environ_assign k v =
     via_module ''os'' ''os''
       (\<lambda>s. if putenv_rejects k v then Raised ValueError (emit (SetEnv k v) s)
            else Done (emit (SetEnv k v) (s\<lparr>environ := (environ s)(k \<mapsto> v)\<rparr>)))"

definition environ_assign_secret :: "world \<Rightarrow> string \<Rightarrow> string \<Rightarrow> nstate \<Rightarrow> outcome" where
  "environ_assign_secret w k n =
     via_module ''userdata'' ''google.colab.userdata''
       (\<lambda>s. case userdata_get w (trace s) n of
              Inl e \<Rightarrow> Raised e (emit (SecretGet n) s)
            | Inr v \<Rightarrow> environ_assign k v (emit (SecretGet n) s))"

text \<open>
  A \<^verbatim>\<open>!\<close> line. The statement receives neither the exit status nor an exception,
  so the world's \<open>shell_status\<close> does not enter it.
\<close>

definition system :: "string \<Rightarrow> nstate \<Rightarrow> outcome" where
  "system cmd s = Done (emit (System cmd) s)"

text \<open>\<^verbatim>\<open>x = subprocess.Popen(cmd, shell=True)\<close>.\<close>

definition popen_assign :: "world \<Rightarrow> string \<Rightarrow> string \<Rightarrow> nstate \<Rightarrow> outcome" where
  "popen_assign w x cmd =
     via_module ''subprocess'' ''subprocess''
       (\<lambda>s. case popen_spawn w (trace s) cmd of
              Inl e \<Rightarrow> Raised e (emit (Popen cmd) s)
            | Inr p \<Rightarrow> Done (bind_name x (VProcess \<lparr>args = cmd, pid = p\<rparr>) (emit (Popen cmd) s)))"

text \<open>\<^verbatim>\<open>time.sleep(n)\<close>.\<close>

definition sleep :: "nat \<Rightarrow> nstate \<Rightarrow> outcome" where
  "sleep n = via_module ''time'' ''time'' (\<lambda>s. Done (emit (Sleep n) s))"

text \<open>\<^verbatim>\<open>x = Controller(routers=rs, strong_model=sm, weak_model=wm)\<close>.\<close>

definition controller_assign ::
  "world \<Rightarrow> string \<Rightarrow> string list \<Rightarrow> string \<Rightarrow> string \<Rightarrow> nstate \<Rightarrow> outcome" where
  "controller_assign w x rs sm wm =
     lookup ''Controller''
       (\<lambda>v s. if v \<noteq> VClass ''routellm.controller.Controller'' then Raised AttributeError s
              else case controller_init w (trace s) rs sm wm of
                     Some e \<Rightarrow> Raised e (emit (ControllerInit rs sm wm) s)
                   | None \<Rightarrow>
                       Done (bind_name x
                               (VClient \<lparr>routers = rs, strong_model = sm, weak_model = wm\<rparr>)
                               (emit (ControllerInit rs sm wm) s)))"

text \<open>\<^verbatim>\<open>x = client.chat.completions.create(model=m, messages=msgs)\<close>.\<close>

definition chat_assign ::
  "world \<Rightarrow> string \<Rightarrow> string \<Rightarrow> chat_message list \<Rightarrow> nstate \<Rightarrow> outcome" where
  "chat_assign w x m msgs =
     lookup ''client''
       (\<lambda>v s. case v of
                 VClient c \<Rightarrow>
                   (case chat_create w (trace s) c m msgs of
                      Inl e \<Rightarrow> Raised e (emit (ChatCreate c m msgs) s)
                    | Inr r \<Rightarrow> Done (bind_name x (VResponse r) (emit (ChatCreate c m msgs) s)))
               | _ \<Rightarrow> Raised AttributeError s)"

text \<open>
  The two \<^verbatim>\<open>print\<close> statements of the last cell. \<open>Print x\<close> is the call
  \<^verbatim>\<open>print(x)\<close>; the first argument ends in the newline the format string holds.
  \<^verbatim>\<open>response.choices[0]\<close> raises \<^verbatim>\<open>IndexError\<close> on an empty list.
\<close>

definition print_selected_model :: "nstate \<Rightarrow> outcome" where
  "print_selected_model =
     lookup ''response''
       (\<lambda>v s. case v of
                 VResponse r \<Rightarrow> Done (emit (Print (''Selected model: '' @ model r @ ''\<newline>'')) s)
               | _ \<Rightarrow> Raised AttributeError s)"

definition print_response :: "nstate \<Rightarrow> outcome" where
  "print_response =
     lookup ''response''
       (\<lambda>v s. case v of
                 VResponse r \<Rightarrow>
                   (case choices r of
                      [] \<Rightarrow> Raised IndexError s
                    | c # _ \<Rightarrow> Done (emit (Print (''Response: '' @ content (message c))) s))
               | _ \<Rightarrow> Raised AttributeError s)"

subsection \<open>The code cells\<close>

text \<open>
  The code cells in file order, named by what they do; the notebook's cell ids are
  \<^verbatim>\<open>Sagji9qaTPlK\<close> (licence comment only), \<^verbatim>\<open>pFNuO5RsmWfn\<close>, \<^verbatim>\<open>eZCUFnSlzTup\<close>,
  \<^verbatim>\<open>BsQey4_-SunS\<close>, \<^verbatim>\<open>BRFue2F5YtS0\<close>, \<^verbatim>\<open>ZR3TgObHdvLz\<close>, \<^verbatim>\<open>KBF9QIady2nN\<close>,
  \<^verbatim>\<open>HdkLSYwSO3tp\<close>, \<^verbatim>\<open>tUzFyAAnS16k\<close>, \<^verbatim>\<open>xnj66rs5MJtz\<close> and \<^verbatim>\<open>zWUwIOCVlAFG\<close>.
  Markdown cells and comment lines do nothing. A shell command is the text of its
  \<^verbatim>\<open>!\<close> line, without the blank that follows the \<^verbatim>\<open>!\<close> in the two
  \<^verbatim>\<open>pip\<close> lines.
\<close>

datatype cell =
    Licence
  | Credentials
  | OpenAIKey
  | InstallPackages
  | InstallOllama
  | StartOllama
  | RunGemma
  | CheckOllama
  | MakeClient
  | Calibrate
  | Chat

definition pip_routellm :: string where
  \<open>pip_routellm = ''pip install "routellm[serve,eval]"''\<close>

definition pip_genai :: string where
  "pip_genai = ''pip install -q google-generativeai''"

definition install_ollama :: string where
  "install_ollama = ''curl https://ollama.ai/install.sh | sh''"

definition curl_check :: string where
  "curl_check = ''curl localhost:11434''"

definition calibrate_cmd :: string where
  "calibrate_cmd =
     ''python -m routellm.calibrate_threshold --task calibrate --routers bert --strong-model-pct 0.3 --config config.example.yaml''"

definition hello :: "chat_message list" where
  "hello = [\<lparr>role = ''user'', content = ''Hello!''\<rparr>]"

fun exec_cell :: "world \<Rightarrow> cell \<Rightarrow> nstate \<Rightarrow> outcome" where
  "exec_cell w Licence = seq []"
| "exec_cell w Credentials =
     seq [py_import w ''os'' ''os'' (VModule ''os''),
          py_import w ''google.colab.userdata'' ''userdata'' (VModule ''google.colab.userdata''),
          environ_assign_secret w ''HF_TOKEN'' ''HF_TOKEN'',
          environ_assign_secret w ''GEMINI_API_KEY'' ''GOOGLE_API_KEY'']"
| "exec_cell w OpenAIKey =
     seq [environ_assign ''OPENAI_API_KEY'' ''dummy'']"
| "exec_cell w InstallPackages =
     seq [system pip_routellm,
          system pip_genai]"
| "exec_cell w InstallOllama =
     seq [system install_ollama]"
| "exec_cell w StartOllama =
     seq [py_import w ''subprocess'' ''subprocess'' (VModule ''subprocess''),
          py_import w ''time'' ''time'' (VModule ''time''),
          popen_assign w ''process'' ''ollama serve'',
          sleep 5]"
| "exec_cell w RunGemma =
     seq [popen_assign w ''process'' ''ollama run gemma2'',
          sleep 5]"
| "exec_cell w CheckOllama =
     seq [system curl_check]"
| "exec_cell w MakeClient =
     seq [py_import w ''routellm.controller'' ''Controller''
            (VClass ''routellm.controller.Controller''),
          controller_assign w ''client'' [''bert''] ''gemini/gemini-pro'' ''ollama_chat/gemma2'']"
| "exec_cell w Calibrate =
     seq [system calibrate_cmd]"
| "exec_cell w Chat =
     seq [chat_assign w ''response'' ''router-bert-0.46514'' hello,
          print_selected_model,
          print_response]"

definition notebook :: "cell list" where
  "notebook = [Licence, Credentials, OpenAIKey, InstallPackages, InstallOllama,
               StartOllama, RunGemma, CheckOllama, MakeClient, Calibrate, Chat]"

text \<open>Running cells top to bottom stops at the first cell that raises.\<close>

definition run_cells :: "world \<Rightarrow> cell list \<Rightarrow> nstate \<Rightarrow> outcome" where
  "run_cells w cs = seq (map (exec_cell w) cs)"

definition run_all :: "world \<Rightarrow> (string \<rightharpoonup> string) \<Rightarrow> outcome" where
  "run_all w env0 = run_cells w notebook (initial env0)"

subsection \<open>Observations on a run\<close>

text \<open>
  The client that \<^verbatim>\<open>Controller(routers=["bert"], strong_model="gemini/gemini-pro",
  weak_model="ollama_chat/gemma2")\<close> yields.
\<close>

definition router_client :: controller where
  "router_client =
     \<lparr>routers = [''bert''], strong_model = ''gemini/gemini-pro'',
      weak_model = ''ollama_chat/gemma2''\<rparr>"

fun is_chat_create :: "event \<Rightarrow> bool" where
  "is_chat_create (ChatCreate c m msgs) = True"
| "is_chat_create _ = False"

fun is_process_control :: "event \<Rightarrow> bool" where
  "is_process_control (Poll p) = True"
| "is_process_control (Wait p) = True"
| "is_process_control (Terminate p) = True"
| "is_process_control (Kill p) = True"
| "is_process_control _ = False"

text \<open>The calls that install or enter the routing library.\<close>

fun uses_routellm :: "event \<Rightarrow> bool" where
  "uses_routellm (System cmd) = (cmd = pip_routellm \<or> cmd = calibrate_cmd)"
| "uses_routellm (Import m) = (m = ''routellm.controller'')"
| "uses_routellm (ControllerInit rs sm wm) = True"
| "uses_routellm (ChatCreate c m msgs) = True"
| "uses_routellm _ = False"

text \<open>
  \<open>followed_by a b tr\<close>: every occurrence of \<open>a\<close> in \<open>tr\<close> is the last event or has
  \<open>b\<close> as its immediate successor.
  \<open>preceded_by x R tr\<close>: no event satisfying \<open>R\<close> occurs in \<open>tr\<close> before the first \<open>x\<close>.
\<close>

fun followed_by :: "event \<Rightarrow> event \<Rightarrow> event list \<Rightarrow> bool" where
  "followed_by a b [] = True"
| "followed_by a b [e] = True"
| "followed_by a b (e # e' # es) = ((e = a \<longrightarrow> e' = b) \<and> followed_by a b (e' # es))"

fun preceded_by :: "event \<Rightarrow> (event \<Rightarrow> bool) \<Rightarrow> event list \<Rightarrow> bool" where
  "preceded_by x R [] = True"
| "preceded_by x R (e # es) = (e = x \<or> (\<not> R e \<and> preceded_by x R es))"

text \<open>The steps of the flow the specification lists, and the step each call belongs to.\<close>

datatype step =
    LoadCredentials
  | InstallDependencies
  | StartServer
  | ConstructClient
  | CalibrateThreshold
  | SendRequest
  | PrintResult

fun step_index :: "step \<Rightarrow> nat" where
  "step_index LoadCredentials = 0"
| "step_index InstallDependencies = 1"
| "step_index StartServer = 2"
| "step_index ConstructClient = 3"
| "step_index CalibrateThreshold = 4"
| "step_index SendRequest = 5"
| "step_index PrintResult = 6"

fun step_of :: "event \<Rightarrow> step option" where
  "step_of (Import m) =
     (if m = ''os'' \<or> m = ''google.colab.userdata'' then Some LoadCredentials
      else if m = ''subprocess'' \<or> m = ''time'' then Some StartServer
      else if m = ''routellm.controller'' then Some ConstructClient
      else None)"
| "step_of (SecretGet n) = Some LoadCredentials"
| "step_of (SetEnv k v) = Some LoadCredentials"
| "step_of (System cmd) =
     (if cmd = pip_routellm \<or> cmd = pip_genai \<or> cmd = install_ollama then Some InstallDependencies
      else if cmd = curl_check then Some StartServer
      else if cmd = calibrate_cmd then Some CalibrateThreshold
      else None)"
| "step_of (Popen cmd) = Some StartServer"
| "step_of (Sleep n) = Some StartServer"
| "step_of (ControllerInit rs sm wm) = Some ConstructClient"
| "step_of (ChatCreate c m msgs) = Some SendRequest"
| "step_of (Print x) = Some PrintResult"
| "step_of _ = None"

definition steps_of :: "event list \<Rightarrow> step list option" where
  "steps_of tr = those (map step_of tr)"

text \<open>
  The exception, if any, with which a call made after history \<open>h\<close> is answered. A
  \<open>System\<close> call is answered with none, whatever its exit status; \<open>shell_failed\<close>
  tells whether that status was a failure.
\<close>

fun raises :: "world \<Rightarrow> event list \<Rightarrow> event \<Rightarrow> exn option" where
  "raises w h (Import m) = import_module w h m"
| "raises w h (SecretGet n) = (case userdata_get w h n of Inl e \<Rightarrow> Some e | Inr v \<Rightarrow> None)"
| "raises w h (SetEnv k v) = (if putenv_rejects k v then Some ValueError else None)"
| "raises w h (Popen cmd) = (case popen_spawn w h cmd of Inl e \<Rightarrow> Some e | Inr p \<Rightarrow> None)"
| "raises w h (ControllerInit rs sm wm) = controller_init w h rs sm wm"
| "raises w h (ChatCreate c m msgs) =
     (case chat_create w h c m msgs of Inl e \<Rightarrow> Some e | Inr r \<Rightarrow> None)"
| "raises w h _ = None"




text \<open>
  \<open>propagates w out h tr\<close> replays the calls \<open>tr\<close> made after history \<open>h\<close>: a call
  that the world answers with an exception must be the last one, and that exception
  must be the outcome of the run.
\<close>

fun propagates :: "world \<Rightarrow> outcome \<Rightarrow> event list \<Rightarrow> event list \<Rightarrow> bool" where
  "propagates w out h [] = True"
| "propagates w out h (ev # rest) =
     (case raises w h ev of
        None \<Rightarrow> propagates w out (h @ [ev]) rest
      | Some e \<Rightarrow> rest = [] \<and> out = Raised e (final out))"

text \<open>
  The assignments to \<^verbatim>\<open>os.environ\<close> that a run makes, in order (in a run that
  completes each of them is a write), and the values it obtained from the secret
  store.
\<close>

fun env_writes :: "event list \<Rightarrow> (string \<times> string) list" where
  "env_writes [] = []"
| "env_writes (SetEnv k v # es) = (k, v) # env_writes es"
| "env_writes (e # es) = env_writes es"

fun secrets_read :: "world \<Rightarrow> event list \<Rightarrow> event list \<Rightarrow> string list" where
  "secrets_read w h [] = []"
| "secrets_read w h (SecretGet n # es) =
     (case userdata_get w h n of Inl e \<Rightarrow> [] | Inr v \<Rightarrow> [v]) @ secrets_read w (h @ [SecretGet n]) es"
| "secrets_read w h (e # es) = secrets_read w (h @ [e]) es"

text \<open>
  The specification's reading of the environment: two variables, each holding a
  credential from the secret store.
\<close>

definition writes_only_store_credentials :: "world \<Rightarrow> event list \<Rightarrow> bool" where
  "writes_only_store_credentials w tr =
     (length (env_writes tr) = 2 \<and> set (map snd (env_writes tr)) \<subseteq> set (secrets_read w [] tr))"

text \<open>
  The two kinds of object the specification names: a routing client instance and a chat
  response object. The test reads the kind of the value and nothing else.
\<close>

fun client_or_response :: "pyval \<Rightarrow> bool" where
  "client_or_response (VClient c) = True"
| "client_or_response (VResponse r) = True"
| "client_or_response _ = False"

text \<open>What each name of the notebook may hold.\<close>

fun external_binding :: "string \<Rightarrow> pyval \<Rightarrow> bool" where
  "external_binding x (VModule m) =
     ((x = ''os'' \<and> m = ''os'') \<or> (x = ''userdata'' \<and> m = ''google.colab.userdata'') \<or>
      (x = ''subprocess'' \<and> m = ''subprocess'') \<or> (x = ''time'' \<and> m = ''time''))"
| "external_binding x (VClass c) = (x = ''Controller'' \<and> c = ''routellm.controller.Controller'')"
| "external_binding x (VProcess p) = (x = ''process'')"
| "external_binding x (VClient c) = (x = ''client'' \<and> c = router_client)"
| "external_binding x (VResponse r) = (x = ''response'')"

text \<open>The invariant of the notebook's names: each holds what \<open>external_binding\<close> allows.\<close>

definition bindings_ok :: "nstate \<Rightarrow> bool" where
  "bindings_ok s = (\<forall>x v. globals s x = Some v \<longrightarrow> external_binding x v)"

text \<open>
  The calls of a run in which nothing fails, given the two secrets \<open>h\<close> and \<open>g\<close>, and
  the model name \<open>m\<close> and text \<open>c\<close> of the response; and the names bound at its end.
\<close>

definition script :: "string \<Rightarrow> string \<Rightarrow> string \<Rightarrow> string \<Rightarrow> event list" where
  "script h g m c =
     [Import ''os'', Import ''google.colab.userdata'',
      SecretGet ''HF_TOKEN'', SetEnv ''HF_TOKEN'' h,
      SecretGet ''GOOGLE_API_KEY'', SetEnv ''GEMINI_API_KEY'' g,
      SetEnv ''OPENAI_API_KEY'' ''dummy'',
      System pip_routellm, System pip_genai,
      System install_ollama,
      Import ''subprocess'', Import ''time'',
      Popen ''ollama serve'', Sleep 5,
      Popen ''ollama run gemma2'', Sleep 5,
      System curl_check,
      Import ''routellm.controller'',
      ControllerInit [''bert''] ''gemini/gemini-pro'' ''ollama_chat/gemma2'',
      System calibrate_cmd,
      ChatCreate router_client ''router-bert-0.46514'' hello,
      Print (''Selected model: '' @ m @ ''\<newline>''),
      Print (''Response: '' @ c)]"

definition bindings :: "nat \<Rightarrow> response \<Rightarrow> string \<rightharpoonup> pyval" where
  "bindings p r =
     [''os'' \<mapsto> VModule ''os'',
      ''userdata'' \<mapsto> VModule ''google.colab.userdata'',
      ''subprocess'' \<mapsto> VModule ''subprocess'',
      ''time'' \<mapsto> VModule ''time'',
      ''process'' \<mapsto> VProcess \<lparr>args = ''ollama run gemma2'', pid = p\<rparr>,
      ''Controller'' \<mapsto> VClass ''routellm.controller.Controller'',
      ''client'' \<mapsto> VClient router_client,
      ''response'' \<mapsto> VResponse r]"

subsection \<open>Some worlds\<close>

text \<open>
  \<open>world_ok\<close>: every call succeeds. \<open>world_no_key\<close>: the secret \<^verbatim>\<open>GOOGLE_API_KEY\<close>
  is missing from the store. \<open>world_needs_calibration\<close>: the chat request succeeds
  only when the calibration command has run before it. \<open>world_calibration_fails\<close>:
  the calibration command exits with status 1 (as it does when
  \<^verbatim>\<open>config.example.yaml\<close> is not there), every other call succeeds.
  \<open>world_nul_token\<close>: the secret \<^verbatim>\<open>HF_TOKEN\<close> is the three characters \<^verbatim>\<open>a\<close>, NUL,
  \<^verbatim>\<open>b\<close>.
\<close>

definition greeting :: response where
  "greeting =
     \<lparr>model = ''ollama_chat/gemma2'',
      choices = [\<lparr>message = \<lparr>role = ''assistant'', content = ''Hi there!''\<rparr>\<rparr>]\<rparr>"

definition world_ok :: world where
  "world_ok =
     \<lparr>import_module = (\<lambda>h m. None),
      userdata_get = (\<lambda>h n. if n = ''HF_TOKEN'' then Inr ''hf_secret''
                              else if n = ''GOOGLE_API_KEY'' then Inr ''google_secret''
                              else Inl (ExternalError ''SecretNotFoundError'')),
      popen_spawn = (\<lambda>h cmd. if cmd = ''ollama serve'' then Inr 101 else Inr 102),
      controller_init = (\<lambda>h rs sm wm. None),
      chat_create = (\<lambda>h c m msgs. Inr greeting),
      shell_status = (\<lambda>h cmd. 0)\<rparr>"

definition world_no_key :: world where
  "world_no_key =
     world_ok\<lparr>userdata_get :=
                (\<lambda>h n. if n = ''HF_TOKEN'' then Inr ''hf_secret''
                        else Inl (ExternalError ''SecretNotFoundError''))\<rparr>"

definition world_needs_calibration :: world where
  "world_needs_calibration =
     world_ok\<lparr>chat_create :=
                (\<lambda>h c m msgs. if System calibrate_cmd \<in> set h then Inr greeting
                                else Inl (ExternalError ''RuntimeError''))\<rparr>"


definition nul_token :: string where
  "nul_token = [CHR ''a'', CHR 0x00, CHR ''b'']"

definition world_nul_token :: world where
  "world_nul_token =
     world_ok\<lparr>userdata_get :=
                (\<lambda>h n. if n = ''HF_TOKEN'' then Inr nul_token
                        else if n = ''GOOGLE_API_KEY'' then Inr ''google_secret''
                        else Inl (ExternalError ''SecretNotFoundError''))\<rparr>"

section \<open>Symbolic execution\<close>

lemmas stmt_defs =
  py_import_def environ_assign_def environ_assign_secret_def system_def popen_assign_def
  sleep_def controller_assign_def chat_assign_def print_selected_model_def print_response_def
  lookup_def via_module_def emit_def bind_name_def putenv_rejects_def

lemmas run_defs = run_all_def run_cells_def notebook_def initial_def

lemmas cmd_defs = pip_routellm_def pip_genai_def install_ollama_def curl_check_def calibrate_cmd_def

lemma trace_prefix_script:
  "\<exists>h g m c. prefix (trace (final (run_all w env0))) (script h g m c)"
  by (simp add: run_defs stmt_defs script_def router_client_def
      split: option.split sum.split list.split)

lemma trace_in_prefixes:
  obtains h g m c where "trace (final (run_all w env0)) \<in> set (prefixes (script h g m c))"
  using trace_prefix_script [of w env0] by (auto simp: in_set_prefixes)

lemma trace_prefix:
  obtains h g m c where "prefix (trace (final (run_all w env0))) (script h g m c)"
  using trace_prefix_script [of w env0] by blast

text \<open>Observations that pass from a trace to each of its prefixes.\<close>

lemma followed_by_prefix:
  "prefix t u \<Longrightarrow> followed_by a b u \<Longrightarrow> followed_by a b t"
proof (induction a b u arbitrary: t rule: followed_by.induct)
  case (1 a b)
  then show ?case by simp
next
  case (2 a b e)
  then show ?case by (cases t) auto
next
  case (3 a b e e' es)
  show ?case
  proof (cases t)
    case Nil
    then show ?thesis by simp
  next
    case (Cons x xs)
    with "3.prems" have x: "x = e" and xs: "prefix xs (e' # es)" by auto
    show ?thesis
    proof (cases xs)
      case Nil
      with Cons show ?thesis by simp
    next
      case (Cons y ys)
      with xs have y: "y = e'" by simp
      from "3.IH" [OF xs] "3.prems" have "followed_by a b xs" by simp
      with "3.prems" \<open>t = x # xs\<close> Cons x y show ?thesis by simp
    qed
  qed
qed

lemma preceded_by_prefix:
  "prefix t u \<Longrightarrow> preceded_by x R u \<Longrightarrow> preceded_by x R t"
proof (induction u arbitrary: t)
  case Nil
  then show ?case by simp
next
  case (Cons e es)
  show ?case
  proof (cases t)
    case Nil
    then show ?thesis by simp
  next
    case (Cons y ys)
    with Cons.prems have "y = e" and "prefix ys es" by simp_all
    with Cons.IH [of ys] Cons.prems \<open>t = y # ys\<close> show ?thesis by auto
  qed
qed

lemma count_list_prefix:
  assumes "prefix t u"
  shows "count_list t x \<le> count_list u x"
proof -
  from assms obtain r where "u = t @ r" by (rule prefixE)
  then show ?thesis by simp
qed

lemma filter_empty_prefix:
  assumes "prefix t u" and "filter P u = []"
  shows "filter P t = []"
proof -
  from assms(1) obtain r where "u = t @ r" by (rule prefixE)
  with assms(2) show ?thesis by simp
qed

lemma run_all_Done:
  assumes "run_all w env0 = Done s"
  shows "\<exists>h g p r c cs.
           s = \<lparr>environ = env0(''HF_TOKEN'' \<mapsto> h, ''GEMINI_API_KEY'' \<mapsto> g,
                               ''OPENAI_API_KEY'' \<mapsto> ''dummy''),
                globals = bindings p r,
                trace = script h g (model r) (content (message c))\<rparr> \<and>
           choices r = c # cs \<and>
           userdata_get w (take 2 (script h g (model r) (content (message c)))) ''HF_TOKEN'' = Inr h \<and>
           userdata_get w (take 4 (script h g (model r) (content (message c)))) ''GOOGLE_API_KEY'' = Inr g \<and>
           popen_spawn w (take 14 (script h g (model r) (content (message c)))) ''ollama run gemma2'' = Inr p \<and>
           chat_create w (take 20 (script h g (model r) (content (message c))))
             router_client ''router-bert-0.46514'' hello = Inr r"
  using assms
  by (simp add: run_defs stmt_defs script_def router_client_def bindings_def
      split: option.splits sum.splits list.splits if_splits)

lemma run_all_world_ok:
  "run_all world_ok Map.empty =
     Done \<lparr>environ = [''HF_TOKEN'' \<mapsto> ''hf_secret'', ''GEMINI_API_KEY'' \<mapsto> ''google_secret'',
                      ''OPENAI_API_KEY'' \<mapsto> ''dummy''],
           globals = bindings 102 greeting,
           trace = script ''hf_secret'' ''google_secret'' ''ollama_chat/gemma2'' ''Hi there!''\<rparr>"
  by (simp add: run_defs stmt_defs script_def router_client_def bindings_def world_ok_def
      greeting_def)


lemma run_all_DoneE:
  assumes "run_all w env0 = Done s"
  obtains h g p r c cs where
    "s = \<lparr>environ = env0(''HF_TOKEN'' \<mapsto> h, ''GEMINI_API_KEY'' \<mapsto> g,
                            ''OPENAI_API_KEY'' \<mapsto> ''dummy''),
          globals = bindings p r,
          trace = script h g (model r) (content (message c))\<rparr>"
    "choices r = c # cs"
    "userdata_get w (take 2 (script h g (model r) (content (message c)))) ''HF_TOKEN'' = Inr h"
    "userdata_get w (take 4 (script h g (model r) (content (message c)))) ''GOOGLE_API_KEY'' = Inr g"
    "popen_spawn w (take 14 (script h g (model r) (content (message c)))) ''ollama run gemma2'' = Inr p"
    "chat_create w (take 20 (script h g (model r) (content (message c))))
       router_client ''router-bert-0.46514'' hello = Inr r"
  using run_all_Done [OF assms] by (elim exE conjE) (rule that, assumption+)

lemma bindings_external:
  "bindings p r x = Some v \<Longrightarrow> external_binding x v"
  by (auto simp: bindings_def split: if_splits)

lemma dom_bindings:
  "dom (bindings p r) =
     {''os'', ''userdata'', ''subprocess'', ''time'', ''process'', ''Controller'', ''client'',
      ''response''}"
  by (auto simp: bindings_def split: if_splits)

text \<open>Every cell, run in any state, keeps the invariant; so does every sequence of cells.\<close>

lemma exec_cell_bindings_ok:
  "bindings_ok s \<Longrightarrow> bindings_ok (final (exec_cell w c s))"
  by (cases c)
     (auto simp: bindings_ok_def stmt_defs router_client_def
           split: option.splits sum.splits list.splits pyval.splits if_splits)

lemma run_cells_bindings_ok:
  "bindings_ok s \<Longrightarrow> bindings_ok (final (run_cells w cs s))"
proof (induction cs arbitrary: s)
  case Nil
  then show ?case by (simp add: run_cells_def)
next
  case (Cons c cs)
  show ?case
  proof (cases "exec_cell w c s")
    case (Done s')
    with exec_cell_bindings_ok [OF Cons.prems, of w c] have "bindings_ok s'" by simp
    from Cons.IH [OF this] Done show ?thesis by (simp add: run_cells_def)
  next
    case (Raised e s')
    with exec_cell_bindings_ok [OF Cons.prems, of w c] show ?thesis
      by (simp add: run_cells_def)
  qed
qed

lemma run_all_bindings_ok: "bindings_ok (final (run_all w env0))"
  unfolding run_all_def
  by (rule run_cells_bindings_ok) (simp add: bindings_ok_def initial_def)

lemma in_trace_in_script:
  assumes "ev \<in> set (trace (final (run_all w env0)))"
  obtains h g m c where "ev \<in> set (script h g m c)"
proof -
  obtain h g m c where "prefix (trace (final (run_all w env0))) (script h g m c)"
    by (rule trace_prefix)
  then have "set (trace (final (run_all w env0))) \<subseteq> set (script h g m c)"
    by (rule set_mono_prefix)
  with assms that show thesis by blast
qed

lemma bindings_no_serve:
  "bindings q r x \<noteq> Some (VProcess \<lparr>args = ''ollama serve'', pid = p\<rparr>)"
  by (simp add: bindings_def)

text \<open>Running a list of cells in two parts; the calibration cell and its one call.\<close>

lemma seq_append:
  "seq (fs @ gs) s = (case seq fs s of Done s' \<Rightarrow> seq gs s' | Raised e s' \<Rightarrow> Raised e s')"
  by (induction fs arbitrary: s) (auto split: outcome.splits)

lemma run_cells_append:
  "run_cells w (as @ bs) s =
     (case run_cells w as s of Done s' \<Rightarrow> run_cells w bs s' | Raised e s' \<Rightarrow> Raised e s')"
  unfolding run_cells_def by (simp add: seq_append)

lemma calibrate_then_chat:
  "filter is_chat_create (trace (final (run_cells w [Calibrate, Chat] s))) =
   filter is_chat_create (trace (final (run_cells w [Chat] s)))"
  by (simp add: run_cells_def stmt_defs
      split: option.split sum.split list.split pyval.split)

lemma calibrate_frame:
  "exec_cell w Calibrate s = Done (s\<lparr>trace := trace s @ [System calibrate_cmd]\<rparr>)"
  by (simp add: stmt_defs)

lemma exec_cell_calibration_event:
  "System calibrate_cmd \<in> set (trace (final (exec_cell w c s))) \<Longrightarrow>
     c = Calibrate \<or> System calibrate_cmd \<in> set (trace s)"
  by (cases c)
     (auto simp: stmt_defs cmd_defs
           split: option.splits sum.splits list.splits pyval.splits if_splits)

lemma run_cells_calibration_event:
  "System calibrate_cmd \<in> set (trace (final (run_cells w cs s))) \<Longrightarrow>
     Calibrate \<in> set cs \<or> System calibrate_cmd \<in> set (trace s)"
proof (induction cs arbitrary: s)
  case Nil
  then show ?case by (simp add: run_cells_def)
next
  case (Cons c cs)
  show ?case
  proof (cases "exec_cell w c s")
    case (Done s')
    with Cons.prems have "System calibrate_cmd \<in> set (trace (final (run_cells w cs s')))"
      by (simp add: run_cells_def)
    from Cons.IH [OF this] have "Calibrate \<in> set cs \<or> System calibrate_cmd \<in> set (trace s')" .
    moreover from Done have "s' = final (exec_cell w c s)" by simp
    ultimately show ?thesis
      using exec_cell_calibration_event [of w c s] by auto
  next
    case (Raised e s')
    with Cons.prems have "System calibrate_cmd \<in> set (trace (final (exec_cell w c s)))"
      by (simp add: run_cells_def)
    then show ?thesis
      using exec_cell_calibration_event [of w c s] by auto
  qed
qed

lemma notebook_split:
  "notebook = takeWhile (\<lambda>c. c \<noteq> Calibrate) notebook @ [Calibrate, Chat]"
  "filter (\<lambda>c. c \<noteq> Calibrate) notebook = takeWhile (\<lambda>c. c \<noteq> Calibrate) notebook @ [Chat]"
  by (simp_all add: notebook_def)

lemma chat_calls_without_calibration:
  "filter is_chat_create
     (trace (final (run_cells w (filter (\<lambda>c. c \<noteq> Calibrate) notebook) (initial env0)))) =
   filter is_chat_create (trace (final (run_all w env0)))"
proof -
  let ?before = "takeWhile (\<lambda>c. c \<noteq> Calibrate) notebook"
  show ?thesis
  proof (cases "run_cells w ?before (initial env0)")
    case (Done s)
    have "run_all w env0 = run_cells w [Calibrate, Chat] s"
      unfolding run_all_def by (subst notebook_split(1)) (simp add: run_cells_append Done)
    moreover have "run_cells w (filter (\<lambda>c. c \<noteq> Calibrate) notebook) (initial env0) =
                   run_cells w [Chat] s"
      by (simp add: notebook_split(2) run_cells_append Done)
    ultimately show ?thesis
      by (simp add: calibrate_then_chat)
  next
    case (Raised e s)
    have "run_all w env0 = Raised e s"
      unfolding run_all_def by (subst notebook_split(1)) (simp add: run_cells_append Raised)
    moreover have "run_cells w (filter (\<lambda>c. c \<noteq> Calibrate) notebook) (initial env0) = Raised e s"
      by (simp add: notebook_split(2) run_cells_append Raised)
    ultimately show ?thesis by simp
  qed
qed

lemma chat_in_script:
  "ev \<in> set (script h g m c) \<Longrightarrow> is_chat_create ev \<Longrightarrow>
     ev = ChatCreate router_client ''router-bert-0.46514'' hello"
  by (auto simp: script_def)

lemma run_all_world_needs_calibration:
  "trace (final (run_all world_needs_calibration Map.empty)) =
     script ''hf_secret'' ''google_secret'' ''ollama_chat/gemma2'' ''Hi there!'' \<and>
   completed (run_all world_needs_calibration Map.empty)"
  by (simp add: run_defs stmt_defs script_def router_client_def world_needs_calibration_def
      world_ok_def greeting_def)

lemma skip_run_world_needs_calibration:
  "run_cells world_needs_calibration (filter (\<lambda>c. c \<noteq> Calibrate) notebook) (initial Map.empty) =
     Raised (ExternalError ''RuntimeError'')
       \<lparr>environ = [''HF_TOKEN'' \<mapsto> ''hf_secret'', ''GEMINI_API_KEY'' \<mapsto> ''google_secret'',
                   ''OPENAI_API_KEY'' \<mapsto> ''dummy''],
        globals = (bindings 102 greeting) |` (- {''response''}),
        trace = take 19 (script ''hf_secret'' ''google_secret'' [] []) @
                [ChatCreate router_client ''router-bert-0.46514'' hello]\<rparr>"
  by (simp add: run_cells_def notebook_def initial_def stmt_defs script_def router_client_def
      world_needs_calibration_def world_ok_def cmd_defs bindings_def restrict_map_def fun_eq_iff)










text \<open>Replaying a run: a call that raises is the last one.\<close>

lemma propagates_run:
  "propagates w (run_all w env0) [] (trace (final (run_all w env0)))"
  by (simp add: run_defs stmt_defs router_client_def
      split: option.split sum.split list.split)

lemma propagates_split:
  "propagates w out h (pre @ ev # post) \<Longrightarrow> raises w (h @ pre) ev = Some e \<Longrightarrow>
     post = [] \<and> out = Raised e (final out)"
proof (induction pre arbitrary: h)
  case Nil
  then show ?case by simp
next
  case (Cons p ps)
  from Cons.prems(1) have "propagates w out (h @ [p]) (ps @ ev # post)"
    by (simp split: option.splits)
  moreover from Cons.prems(2) have "raises w ((h @ [p]) @ ps) ev = Some e"
    by simp
  ultimately show ?case by (rule Cons.IH)
qed

section \<open>The claims\<close>

text \<open>
  Claim C1. The notebook sends one chat request and then prints the result. In every
  run the trace holds at most one \<open>ChatCreate\<close> call; in a run that completes, the
  trace ends with that one call, made on the routing client with the model argument
  \<^verbatim>\<open>router-bert-0.46514\<close> and the single user message \<^verbatim>\<open>Hello!\<close>, followed by the
  two \<^verbatim>\<open>print\<close> calls, whose arguments carry \<^verbatim>\<open>response.model\<close> and
  \<^verbatim>\<open>response.choices[0].message.content\<close> of the response \<open>r\<close> that the call
  returned.
\<close>

theorem chat_request_once_then_print:
  "length (filter is_chat_create (trace (final (run_all w env0)))) \<le> 1 \<and>
   (run_all w env0 = Done s \<longrightarrow>
      (\<exists>pre r c cs.
         trace s =
           pre @ [ChatCreate router_client ''router-bert-0.46514''
                    [\<lparr>role = ''user'', content = ''Hello!''\<rparr>],
                  Print (''Selected model: '' @ model r @ ''\<newline>''),
                  Print (''Response: '' @ content (message c))] \<and>
         filter is_chat_create pre = [] \<and>
         chat_create w pre router_client ''router-bert-0.46514''
           [\<lparr>role = ''user'', content = ''Hello!''\<rparr>] = Inr r \<and>
         choices r = c # cs))"
proof
  obtain h g m c where "trace (final (run_all w env0)) \<in> set (prefixes (script h g m c))"
    by (rule trace_in_prefixes)
  moreover have "\<forall>t\<in>set (prefixes (script h g m c)). length (filter is_chat_create t) \<le> 1"
    by (simp add: script_def)
  ultimately show "length (filter is_chat_create (trace (final (run_all w env0)))) \<le> 1"
    by blast
next
  show "run_all w env0 = Done s \<longrightarrow>
      (\<exists>pre r c cs.
         trace s =
           pre @ [ChatCreate router_client ''router-bert-0.46514''
                    [\<lparr>role = ''user'', content = ''Hello!''\<rparr>],
                  Print (''Selected model: '' @ model r @ ''\<newline>''),
                  Print (''Response: '' @ content (message c))] \<and>
         filter is_chat_create pre = [] \<and>
         chat_create w pre router_client ''router-bert-0.46514''
           [\<lparr>role = ''user'', content = ''Hello!''\<rparr>] = Inr r \<and>
         choices r = c # cs)"
  proof
    assume "run_all w env0 = Done s"
    from run_all_Done [OF this] obtain h g p r c cs where
      s: "trace s = script h g (model r) (content (message c))" and
      ch: "choices r = c # cs" and
      cr: "chat_create w (take 20 (script h g (model r) (content (message c))))
             router_client ''router-bert-0.46514'' hello = Inr r"
      by fastforce
    let ?pre = "take 20 (script h g (model r) (content (message c)))"
    have "trace s = ?pre @ [ChatCreate router_client ''router-bert-0.46514''
                    [\<lparr>role = ''user'', content = ''Hello!''\<rparr>],
                  Print (''Selected model: '' @ model r @ ''\<newline>''),
                  Print (''Response: '' @ content (message c))]"
      by (simp add: s script_def hello_def)
    moreover have "filter is_chat_create ?pre = []"
      by (simp add: script_def)
    moreover have "chat_create w ?pre router_client ''router-bert-0.46514''
           [\<lparr>role = ''user'', content = ''Hello!''\<rparr>] = Inr r"
      using cr by (simp add: hello_def)
    ultimately show "\<exists>pre r c cs.
         trace s =
           pre @ [ChatCreate router_client ''router-bert-0.46514''
                    [\<lparr>role = ''user'', content = ''Hello!''\<rparr>],
                  Print (''Selected model: '' @ model r @ ''\<newline>''),
                  Print (''Response: '' @ content (message c))] \<and>
         filter is_chat_create pre = [] \<and>
         chat_create w pre router_client ''router-bert-0.46514''
           [\<lparr>role = ''user'', content = ''Hello!''\<rparr>] = Inr r \<and>
         choices r = c # cs"
      using ch by blast
  qed
qed

theorem chat_request_once_then_print_witness:
  "completed (run_all world_ok Map.empty) \<and>
   (\<exists>pre r c cs.
      trace (final (run_all world_ok Map.empty)) =
        pre @ [ChatCreate router_client ''router-bert-0.46514''
                 [\<lparr>role = ''user'', content = ''Hello!''\<rparr>],
               Print (''Selected model: '' @ model r @ ''\<newline>''),
               Print (''Response: '' @ content (message c))] \<and>
      filter is_chat_create pre = [] \<and>
      chat_create world_ok pre router_client ''router-bert-0.46514''
        [\<lparr>role = ''user'', content = ''Hello!''\<rparr>] = Inr r \<and>
      choices r = c # cs)"
  using chat_request_once_then_print [of world_ok Map.empty "final (run_all world_ok Map.empty)"]
  by (simp add: run_all_world_ok)

text \<open>
  Claim C2. In every top-to-bottom run the steps occur in the order the specification
  lists. The calls of every run are an initial part of one fixed sequence, \<open>script\<close>:
  the two secret lookups with their writes to \<^verbatim>\<open>os.environ\<close>, the installations,
  the two \<^verbatim>\<open>Popen\<close> calls with their sleeps and the probe, the construction of the
  client on its two models, the calibration command, the chat request, the two prints.
  Every call belongs to one of the seven steps and the step indices never decrease.
  A run that completes makes exactly the calls of \<open>script\<close>, each answered without an
  exception, so it passes through the seven steps in the listed order, and it ends with
  the secrets in the environment. After the cells that come before the installation
  the environment already holds the two secrets that the store returned, and the calls
  made so far are the first seven of \<open>script\<close>.
\<close>

theorem steps_in_order:
  "(\<exists>h g m c steps.
      prefix (trace (final (run_all w env0))) (script h g m c) \<and>
      steps_of (trace (final (run_all w env0))) = Some steps \<and>
      sorted (map step_index steps) \<and>
      (completed (run_all w env0) \<longrightarrow>
         trace (final (run_all w env0)) = script h g m c \<and>
         remdups_adj steps =
           [LoadCredentials, InstallDependencies, StartServer, ConstructClient,
            CalibrateThreshold, SendRequest, PrintResult] \<and>
         environ (final (run_all w env0)) =
           env0(''HF_TOKEN'' \<mapsto> h, ''GEMINI_API_KEY'' \<mapsto> g, ''OPENAI_API_KEY'' \<mapsto> ''dummy'') \<and>
         (\<forall>pre ev post. script h g m c = pre @ ev # post \<longrightarrow> raises w pre ev = None))) \<and>
   (run_cells w (takeWhile (\<lambda>c. c \<noteq> InstallPackages) notebook) (initial env0) = Done s1 \<longrightarrow>
      (\<exists>h g. trace s1 = take 7 (script h g [] []) \<and>
             userdata_get w (take 2 (trace s1)) ''HF_TOKEN'' = Inr h \<and>
             userdata_get w (take 4 (trace s1)) ''GOOGLE_API_KEY'' = Inr g \<and>
             environ s1 =
               env0(''HF_TOKEN'' \<mapsto> h, ''GEMINI_API_KEY'' \<mapsto> g, ''OPENAI_API_KEY'' \<mapsto> ''dummy'')))"
proof (rule conjI)
  let ?out = "run_all w env0"
  let ?tr = "trace (final ?out)"
  show "\<exists>h g m c steps.
      prefix ?tr (script h g m c) \<and>
      steps_of ?tr = Some steps \<and>
      sorted (map step_index steps) \<and>
      (completed ?out \<longrightarrow>
         ?tr = script h g m c \<and>
         remdups_adj steps =
           [LoadCredentials, InstallDependencies, StartServer, ConstructClient,
            CalibrateThreshold, SendRequest, PrintResult] \<and>
         environ (final ?out) =
           env0(''HF_TOKEN'' \<mapsto> h, ''GEMINI_API_KEY'' \<mapsto> g, ''OPENAI_API_KEY'' \<mapsto> ''dummy'') \<and>
         (\<forall>pre ev post. script h g m c = pre @ ev # post \<longrightarrow> raises w pre ev = None))"
  proof (cases ?out)
    case (Done s)
    then obtain h g p r c cs where
      s: "s = \<lparr>environ = env0(''HF_TOKEN'' \<mapsto> h, ''GEMINI_API_KEY'' \<mapsto> g,
                               ''OPENAI_API_KEY'' \<mapsto> ''dummy''),
              globals = bindings p r,
              trace = script h g (model r) (content (message c))\<rparr>" and
      "choices r = c # cs" and
      "userdata_get w (take 2 (script h g (model r) (content (message c)))) ''HF_TOKEN'' = Inr h" and
      "userdata_get w (take 4 (script h g (model r) (content (message c)))) ''GOOGLE_API_KEY'' = Inr g" and
      "popen_spawn w (take 14 (script h g (model r) (content (message c)))) ''ollama run gemma2'' = Inr p" and
      "chat_create w (take 20 (script h g (model r) (content (message c))))
         router_client ''router-bert-0.46514'' hello = Inr r"
      by (rule run_all_DoneE)
    let ?sc = "script h g (model r) (content (message c))"
    have tr: "?tr = ?sc"
      by (simp add: Done s)
    have env: "environ (final ?out) =
           env0(''HF_TOKEN'' \<mapsto> h, ''GEMINI_API_KEY'' \<mapsto> g, ''OPENAI_API_KEY'' \<mapsto> ''dummy'')"
      by (simp add: Done s)
    have st: "steps_of ?sc =
        Some (replicate 7 LoadCredentials @ replicate 3 InstallDependencies @
              replicate 7 StartServer @ replicate 2 ConstructClient @
              [CalibrateThreshold, SendRequest, PrintResult, PrintResult])"
      by (simp add: steps_of_def script_def cmd_defs numeral_eq_Suc)
    have ok: "\<forall>pre ev post. ?sc = pre @ ev # post \<longrightarrow> raises w pre ev = None"
    proof (intro allI impI)
      fix pre ev post
      assume dec: "?sc = pre @ ev # post"
      show "raises w pre ev = None"
      proof (cases "raises w pre ev")
        case None
        then show ?thesis .
      next
        case (Some e)
        have "propagates w ?out [] (pre @ ev # post)"
          using propagates_run [of w env0] tr dec by simp
        moreover have "raises w ([] @ pre) ev = Some e"
          using Some by simp
        ultimately have "?out = Raised e (final ?out)"
          using propagates_split by blast
        with Done show ?thesis by simp
      qed
    qed
    have "prefix ?tr ?sc"
      by (simp add: tr)
    moreover have "steps_of ?tr = Some (replicate 7 LoadCredentials @ replicate 3 InstallDependencies @
              replicate 7 StartServer @ replicate 2 ConstructClient @
              [CalibrateThreshold, SendRequest, PrintResult, PrintResult])"
      by (simp only: tr st)
    moreover have "sorted (map step_index (replicate 7 LoadCredentials @ replicate 3 InstallDependencies @
              replicate 7 StartServer @ replicate 2 ConstructClient @
              [CalibrateThreshold, SendRequest, PrintResult, PrintResult]))"
      by (simp add: numeral_eq_Suc)
    moreover have "remdups_adj (replicate 7 LoadCredentials @ replicate 3 InstallDependencies @
              replicate 7 StartServer @ replicate 2 ConstructClient @
              [CalibrateThreshold, SendRequest, PrintResult, PrintResult]) =
           [LoadCredentials, InstallDependencies, StartServer, ConstructClient,
            CalibrateThreshold, SendRequest, PrintResult]"
      by (simp add: numeral_eq_Suc)
    ultimately show ?thesis
      using tr env ok by blast
  next
    case (Raised e s)
    obtain h g m c where mem: "?tr \<in> set (prefixes (script h g m c))"
      by (rule trace_in_prefixes)
    have "\<forall>t\<in>set (prefixes (script h g m c)).
            \<exists>steps. steps_of t = Some steps \<and> sorted (map step_index steps)"
      by (simp add: steps_of_def script_def cmd_defs)
    with mem obtain steps where "steps_of ?tr = Some steps" and "sorted (map step_index steps)"
      by blast
    moreover from mem have "prefix ?tr (script h g m c)"
      by (simp only: in_set_prefixes)
    moreover have "\<not> completed ?out"
      by (simp add: Raised)
    ultimately show ?thesis by blast
  qed
next
  show "run_cells w (takeWhile (\<lambda>c. c \<noteq> InstallPackages) notebook) (initial env0) = Done s1 \<longrightarrow>
      (\<exists>h g. trace s1 = take 7 (script h g [] []) \<and>
             userdata_get w (take 2 (trace s1)) ''HF_TOKEN'' = Inr h \<and>
             userdata_get w (take 4 (trace s1)) ''GOOGLE_API_KEY'' = Inr g \<and>
             environ s1 =
               env0(''HF_TOKEN'' \<mapsto> h, ''GEMINI_API_KEY'' \<mapsto> g, ''OPENAI_API_KEY'' \<mapsto> ''dummy''))"
    by (auto simp: run_cells_def notebook_def initial_def stmt_defs script_def
        split: option.splits sum.splits if_splits)
qed

lemma after_credentials_world_ok:
  "run_cells world_ok (takeWhile (\<lambda>c. c \<noteq> InstallPackages) notebook) (initial Map.empty) =
     Done \<lparr>environ = [''HF_TOKEN'' \<mapsto> ''hf_secret'', ''GEMINI_API_KEY'' \<mapsto> ''google_secret'',
                      ''OPENAI_API_KEY'' \<mapsto> ''dummy''],
           globals = [''os'' \<mapsto> VModule ''os'',
                      ''userdata'' \<mapsto> VModule ''google.colab.userdata''],
           trace = take 7 (script ''hf_secret'' ''google_secret'' [] [])\<rparr>"
  by (simp add: run_cells_def notebook_def initial_def stmt_defs script_def world_ok_def)

theorem steps_in_order_witness:
  "completed (run_all world_ok Map.empty) \<and>
   completed (run_cells world_ok (takeWhile (\<lambda>c. c \<noteq> InstallPackages) notebook)
                (initial Map.empty)) \<and>
   (\<exists>h g m c steps.
      trace (final (run_all world_ok Map.empty)) = script h g m c \<and>
      steps_of (trace (final (run_all world_ok Map.empty))) = Some steps \<and>
      sorted (map step_index steps) \<and>
      remdups_adj steps =
        [LoadCredentials, InstallDependencies, StartServer, ConstructClient,
         CalibrateThreshold, SendRequest, PrintResult] \<and>
      (\<forall>pre ev post. script h g m c = pre @ ev # post \<longrightarrow> raises world_ok pre ev = None)) \<and>
   (\<exists>h g. environ (final (run_cells world_ok (takeWhile (\<lambda>c. c \<noteq> InstallPackages) notebook)
                              (initial Map.empty))) =
            [''HF_TOKEN'' \<mapsto> h, ''GEMINI_API_KEY'' \<mapsto> g, ''OPENAI_API_KEY'' \<mapsto> ''dummy''])"
proof -
  let ?s1 = "final (run_cells world_ok (takeWhile (\<lambda>c. c \<noteq> InstallPackages) notebook)
                      (initial Map.empty))"
  have a: "completed (run_all world_ok Map.empty)"
    by (simp add: run_all_world_ok)
  have b: "run_cells world_ok (takeWhile (\<lambda>c. c \<noteq> InstallPackages) notebook) (initial Map.empty) =
             Done ?s1"
    by (simp add: after_credentials_world_ok)
  then have c: "completed (run_cells world_ok (takeWhile (\<lambda>c. c \<noteq> InstallPackages) notebook)
                (initial Map.empty))"
    by (simp add: after_credentials_world_ok)
  from steps_in_order [of world_ok Map.empty ?s1] a b c show ?thesis
    by blast
qed

text \<open>
  Claim C3. After starting \<^verbatim>\<open>ollama serve\<close> in the background the notebook sleeps
  five seconds and goes on. In every run, the call that follows each of the two
  \<^verbatim>\<open>Popen\<close> calls, if the run goes on at all, is \<open>Sleep 5\<close>; the server is
  started at most once (no retry); the probe \<^verbatim>\<open>curl localhost:11434\<close> is issued at
  most once (a single look, no polling); and no call observes, awaits or ends a child
  process. In a run that completes, the calls from the server start up to the
  construction of the client are exactly the seven listed.
\<close>

theorem start_then_fixed_sleep:
  "followed_by (Popen ''ollama serve'') (Sleep 5) (trace (final (run_all w env0))) \<and>
   followed_by (Popen ''ollama run gemma2'') (Sleep 5) (trace (final (run_all w env0))) \<and>
   count_list (trace (final (run_all w env0))) (Popen ''ollama serve'') \<le> 1 \<and>
   count_list (trace (final (run_all w env0))) (System curl_check) \<le> 1 \<and>
   filter is_process_control (trace (final (run_all w env0))) = [] \<and>
   (completed (run_all w env0) \<longrightarrow>
      (\<exists>pre post.
         trace (final (run_all w env0)) =
           pre @ [Popen ''ollama serve'', Sleep 5, Popen ''ollama run gemma2'', Sleep 5,
                  System curl_check, Import ''routellm.controller'',
                  ControllerInit [''bert''] ''gemini/gemini-pro'' ''ollama_chat/gemma2''] @ post \<and>
         count_list pre (Popen ''ollama serve'') = 0))"
proof -
  let ?tr = "trace (final (run_all w env0))"
  obtain h g m c where pre: "prefix ?tr (script h g m c)"
    by (rule trace_prefix)
  have "followed_by (Popen ''ollama serve'') (Sleep 5) (script h g m c)"
    by (simp add: script_def)
  from followed_by_prefix [OF pre this]
  have "followed_by (Popen ''ollama serve'') (Sleep 5) ?tr" .
  moreover have "followed_by (Popen ''ollama run gemma2'') (Sleep 5) (script h g m c)"
    by (simp add: script_def)
  from followed_by_prefix [OF pre this]
  have "followed_by (Popen ''ollama run gemma2'') (Sleep 5) ?tr" .
  moreover have "count_list (script h g m c) (Popen ''ollama serve'') = 1"
    by (simp add: script_def)
  with count_list_prefix [OF pre, of "Popen ''ollama serve''"]
  have "count_list ?tr (Popen ''ollama serve'') \<le> 1" by simp
  moreover have "count_list (script h g m c) (System curl_check) = 1"
    by (simp add: script_def cmd_defs)
  with count_list_prefix [OF pre, of "System curl_check"]
  have "count_list ?tr (System curl_check) \<le> 1" by simp
  moreover have "filter is_process_control (script h g m c) = []"
    by (simp add: script_def)
  from filter_empty_prefix [OF pre this]
  have "filter is_process_control ?tr = []" .
  moreover have "completed (run_all w env0) \<longrightarrow>
      (\<exists>pre post.
         ?tr =
           pre @ [Popen ''ollama serve'', Sleep 5, Popen ''ollama run gemma2'', Sleep 5,
                  System curl_check, Import ''routellm.controller'',
                  ControllerInit [''bert''] ''gemini/gemini-pro'' ''ollama_chat/gemma2''] @ post \<and>
         count_list pre (Popen ''ollama serve'') = 0)"
  proof
    assume "completed (run_all w env0)"
    then obtain s where "run_all w env0 = Done s"
      by (cases "run_all w env0") simp_all
    from run_all_Done [OF this] this obtain h' g' m' c' where tr: "?tr = script h' g' m' c'"
      by fastforce
    have "?tr = take 12 (script h' g' m' c') @
            [Popen ''ollama serve'', Sleep 5, Popen ''ollama run gemma2'', Sleep 5,
             System curl_check, Import ''routellm.controller'',
             ControllerInit [''bert''] ''gemini/gemini-pro'' ''ollama_chat/gemma2''] @
            drop 19 (script h' g' m' c')"
      by (simp add: tr script_def)
    moreover have "count_list (take 12 (script h' g' m' c')) (Popen ''ollama serve'') = 0"
      by (simp add: script_def)
    ultimately show "\<exists>pre post.
         ?tr =
           pre @ [Popen ''ollama serve'', Sleep 5, Popen ''ollama run gemma2'', Sleep 5,
                  System curl_check, Import ''routellm.controller'',
                  ControllerInit [''bert''] ''gemini/gemini-pro'' ''ollama_chat/gemma2''] @ post \<and>
         count_list pre (Popen ''ollama serve'') = 0"
      by blast
  qed
  ultimately show ?thesis
    by blast
qed

theorem start_then_fixed_sleep_witness:
  "completed (run_all world_ok Map.empty) \<and>
   followed_by (Popen ''ollama serve'') (Sleep 5) (trace (final (run_all world_ok Map.empty))) \<and>
   count_list (trace (final (run_all world_ok Map.empty))) (Popen ''ollama serve'') = 1 \<and>
   count_list (trace (final (run_all world_ok Map.empty))) (System curl_check) = 1 \<and>
   (\<exists>pre post.
      trace (final (run_all world_ok Map.empty)) =
        pre @ [Popen ''ollama serve'', Sleep 5, Popen ''ollama run gemma2'', Sleep 5,
               System curl_check, Import ''routellm.controller'',
               ControllerInit [''bert''] ''gemini/gemini-pro'' ''ollama_chat/gemma2''] @ post \<and>
      count_list pre (Popen ''ollama serve'') = 0)"
proof -
  have "count_list (trace (final (run_all world_ok Map.empty))) (Popen ''ollama serve'') = 1"
    by (simp add: run_all_world_ok script_def)
  moreover have "count_list (trace (final (run_all world_ok Map.empty))) (System curl_check) = 1"
    by (simp add: run_all_world_ok script_def cmd_defs)
  moreover have "completed (run_all world_ok Map.empty)"
    by (simp add: run_all_world_ok)
  ultimately show ?thesis
    using start_then_fixed_sleep [of world_ok Map.empty] by blast
qed




text \<open>
  Claim C5, as stated: the notebook writes exactly two environment variables, each
  holding a credential from the secret store. It fails: the third cell writes
  \<^verbatim>\<open>OPENAI_API_KEY\<close> with the placeholder \<^verbatim>\<open>dummy\<close>, which no secret lookup
  returned. In the run where every call succeeds the writes are three and the secrets
  read are two.
\<close>

theorem env_writes_counterexample:
  "env_writes (trace (final (run_all world_ok Map.empty))) =
     [(''HF_TOKEN'', ''hf_secret''), (''GEMINI_API_KEY'', ''google_secret''),
      (''OPENAI_API_KEY'', ''dummy'')] \<and>
   secrets_read world_ok [] (trace (final (run_all world_ok Map.empty))) =
     [''hf_secret'', ''google_secret''] \<and>
   \<not> writes_only_store_credentials world_ok (trace (final (run_all world_ok Map.empty)))"
proof -
  let ?tr = "trace (final (run_all world_ok Map.empty))"
  have tr: "?tr = script ''hf_secret'' ''google_secret'' ''ollama_chat/gemma2'' ''Hi there!''"
    by (simp add: run_all_world_ok)
  have ew: "env_writes ?tr =
     [(''HF_TOKEN'', ''hf_secret''), (''GEMINI_API_KEY'', ''google_secret''),
      (''OPENAI_API_KEY'', ''dummy'')]"
    unfolding tr by (simp add: script_def)
  have sr: "secrets_read world_ok [] ?tr = [''hf_secret'', ''google_secret'']"
    unfolding tr by (simp add: script_def world_ok_def)
  have "\<not> writes_only_store_credentials world_ok ?tr"
    unfolding writes_only_store_credentials_def ew sr by simp
  with ew sr show ?thesis by blast
qed

text \<open>
  Claim C5, amended: a run that completes writes exactly three environment variables,
  in this order: \<^verbatim>\<open>HF_TOKEN\<close> and \<^verbatim>\<open>GEMINI_API_KEY\<close> with the two values \<open>h\<close> and
  \<open>g\<close> read from the secret store, and \<^verbatim>\<open>OPENAI_API_KEY\<close> with the constant
  \<^verbatim>\<open>dummy\<close>; the final environment is the initial one with these three entries, and
  every other variable keeps its initial value.
\<close>

theorem env_writes_three:
  assumes "run_all w env0 = Done s"
  shows "\<exists>h g.
           secrets_read w [] (trace s) = [h, g] \<and>
           env_writes (trace s) =
             [(''HF_TOKEN'', h), (''GEMINI_API_KEY'', g), (''OPENAI_API_KEY'', ''dummy'')] \<and>
           environ s =
             env0(''HF_TOKEN'' \<mapsto> h, ''GEMINI_API_KEY'' \<mapsto> g, ''OPENAI_API_KEY'' \<mapsto> ''dummy'') \<and>
           (\<forall>k. k \<notin> {''HF_TOKEN'', ''GEMINI_API_KEY'', ''OPENAI_API_KEY''} \<longrightarrow>
                environ s k = env0 k)"
proof -
  from assms obtain h g p r c cs where
    s: "s = \<lparr>environ = env0(''HF_TOKEN'' \<mapsto> h, ''GEMINI_API_KEY'' \<mapsto> g,
                               ''OPENAI_API_KEY'' \<mapsto> ''dummy''),
              globals = bindings p r,
              trace = script h g (model r) (content (message c))\<rparr>" and
    ch: "choices r = c # cs" and
    uh: "userdata_get w (take 2 (script h g (model r) (content (message c)))) ''HF_TOKEN'' = Inr h" and
    ug: "userdata_get w (take 4 (script h g (model r) (content (message c)))) ''GOOGLE_API_KEY'' = Inr g" and
    ps: "popen_spawn w (take 14 (script h g (model r) (content (message c)))) ''ollama run gemma2'' = Inr p" and
    cc: "chat_create w (take 20 (script h g (model r) (content (message c))))
       router_client ''router-bert-0.46514'' hello = Inr r"
    by (rule run_all_DoneE)
  from uh have uh': "userdata_get w [Import ''os'', Import ''google.colab.userdata''] ''HF_TOKEN'' = Inr h"
    by (simp add: script_def)
  from ug have ug': "userdata_get w [Import ''os'', Import ''google.colab.userdata'',
      SecretGet ''HF_TOKEN'', SetEnv ''HF_TOKEN'' h] ''GOOGLE_API_KEY'' = Inr g"
    by (simp add: script_def)
  have "secrets_read w [] (trace s) = [h, g]"
    using uh' ug' by (simp add: s script_def)
  moreover have "env_writes (trace s) =
             [(''HF_TOKEN'', h), (''GEMINI_API_KEY'', g), (''OPENAI_API_KEY'', ''dummy'')]"
    by (simp add: s script_def)
  moreover have "environ s =
             env0(''HF_TOKEN'' \<mapsto> h, ''GEMINI_API_KEY'' \<mapsto> g, ''OPENAI_API_KEY'' \<mapsto> ''dummy'')"
    by (simp add: s)
  moreover from this have "\<forall>k. k \<notin> {''HF_TOKEN'', ''GEMINI_API_KEY'', ''OPENAI_API_KEY''} \<longrightarrow>
                environ s k = env0 k"
    by simp
  ultimately show ?thesis by blast
qed

theorem env_writes_three_witness:
  "completed (run_all world_ok Map.empty) \<and>
   (\<exists>h g.
      secrets_read world_ok [] (trace (final (run_all world_ok Map.empty))) = [h, g] \<and>
      env_writes (trace (final (run_all world_ok Map.empty))) =
        [(''HF_TOKEN'', h), (''GEMINI_API_KEY'', g), (''OPENAI_API_KEY'', ''dummy'')] \<and>
      environ (final (run_all world_ok Map.empty)) =
        [''HF_TOKEN'' \<mapsto> h, ''GEMINI_API_KEY'' \<mapsto> g, ''OPENAI_API_KEY'' \<mapsto> ''dummy''])"
proof -
  have d: "run_all world_ok Map.empty = Done (final (run_all world_ok Map.empty))"
    by (simp add: run_all_world_ok)
  then have "completed (run_all world_ok Map.empty)"
    by (simp add: run_all_world_ok)
  with env_writes_three [OF d] show ?thesis by blast
qed

text \<open>
  Claim C7, as stated: every object the notebook binds is a routing client or a chat
  response. It fails: the variable \<^verbatim>\<open>process\<close> holds the \<^verbatim>\<open>subprocess.Popen\<close>
  handle of \<^verbatim>\<open>ollama run gemma2\<close>, which is neither.
\<close>

theorem bound_objects_counterexample:
  "globals (final (run_all world_ok Map.empty)) ''process'' =
     Some (VProcess \<lparr>args = ''ollama run gemma2'', pid = 102\<rparr>) \<and>
   \<not> client_or_response (VProcess \<lparr>args = ''ollama run gemma2'', pid = 102\<rparr>)"
  by (simp add: run_all_world_ok bindings_def)

text \<open>
  Claim C7, amended: every object the notebook binds to a name comes from outside the
  notebook, and the objects are not only a routing client and a chat response. In
  every run, finished or not, each bound name holds what \<open>external_binding\<close> allows.
  At the end of a run that completes the names bound are exactly eight: \<^verbatim>\<open>os\<close>,
  \<^verbatim>\<open>userdata\<close>, \<^verbatim>\<open>subprocess\<close> and \<^verbatim>\<open>time\<close> hold the imported modules,
  \<^verbatim>\<open>Controller\<close> the imported class, \<^verbatim>\<open>process\<close> the handle that
  \<^verbatim>\<open>subprocess.Popen\<close> returned for \<^verbatim>\<open>ollama run gemma2\<close>, \<^verbatim>\<open>client\<close> the
  instance that \<^verbatim>\<open>Controller(...)\<close> was called to build, and \<^verbatim>\<open>response\<close> the
  object that \<^verbatim>\<open>client.chat.completions.create\<close> returned. Nothing is said of who
  owns these objects.
\<close>

theorem bound_objects_external:
  "bindings_ok (final (run_all w env0)) \<and>
   (run_all w env0 = Done s \<longrightarrow>
      dom (globals s) =
        {''os'', ''userdata'', ''subprocess'', ''time'', ''process'', ''Controller'',
         ''client'', ''response''} \<and>
      globals s ''os'' = Some (VModule ''os'') \<and>
      globals s ''userdata'' = Some (VModule ''google.colab.userdata'') \<and>
      globals s ''subprocess'' = Some (VModule ''subprocess'') \<and>
      globals s ''time'' = Some (VModule ''time'') \<and>
      globals s ''Controller'' = Some (VClass ''routellm.controller.Controller'') \<and>
      (\<exists>p. popen_spawn w (take 14 (trace s)) ''ollama run gemma2'' = Inr p \<and>
           globals s ''process'' = Some (VProcess \<lparr>args = ''ollama run gemma2'', pid = p\<rparr>)) \<and>
      ControllerInit [''bert''] ''gemini/gemini-pro'' ''ollama_chat/gemma2'' \<in> set (trace s) \<and>
      globals s ''client'' =
        Some (VClient \<lparr>routers = [''bert''], strong_model = ''gemini/gemini-pro'',
                       weak_model = ''ollama_chat/gemma2''\<rparr>) \<and>
      (\<exists>r. chat_create w (take 20 (trace s)) router_client ''router-bert-0.46514'' hello = Inr r \<and>
           globals s ''response'' = Some (VResponse r)))"
proof (rule conjI)
  show "bindings_ok (final (run_all w env0))"
    by (rule run_all_bindings_ok)
next
  show "run_all w env0 = Done s \<longrightarrow>
      dom (globals s) =
        {''os'', ''userdata'', ''subprocess'', ''time'', ''process'', ''Controller'',
         ''client'', ''response''} \<and>
      globals s ''os'' = Some (VModule ''os'') \<and>
      globals s ''userdata'' = Some (VModule ''google.colab.userdata'') \<and>
      globals s ''subprocess'' = Some (VModule ''subprocess'') \<and>
      globals s ''time'' = Some (VModule ''time'') \<and>
      globals s ''Controller'' = Some (VClass ''routellm.controller.Controller'') \<and>
      (\<exists>p. popen_spawn w (take 14 (trace s)) ''ollama run gemma2'' = Inr p \<and>
           globals s ''process'' = Some (VProcess \<lparr>args = ''ollama run gemma2'', pid = p\<rparr>)) \<and>
      ControllerInit [''bert''] ''gemini/gemini-pro'' ''ollama_chat/gemma2'' \<in> set (trace s) \<and>
      globals s ''client'' =
        Some (VClient \<lparr>routers = [''bert''], strong_model = ''gemini/gemini-pro'',
                       weak_model = ''ollama_chat/gemma2''\<rparr>) \<and>
      (\<exists>r. chat_create w (take 20 (trace s)) router_client ''router-bert-0.46514'' hello = Inr r \<and>
           globals s ''response'' = Some (VResponse r))"
  proof (rule impI)
    assume "run_all w env0 = Done s"
    then obtain h g p r c cs where
      s: "s = \<lparr>environ = env0(''HF_TOKEN'' \<mapsto> h, ''GEMINI_API_KEY'' \<mapsto> g,
                               ''OPENAI_API_KEY'' \<mapsto> ''dummy''),
              globals = bindings p r,
              trace = script h g (model r) (content (message c))\<rparr>" and
      ch: "choices r = c # cs" and
      uh: "userdata_get w (take 2 (script h g (model r) (content (message c)))) ''HF_TOKEN'' = Inr h" and
      ug: "userdata_get w (take 4 (script h g (model r) (content (message c)))) ''GOOGLE_API_KEY'' = Inr g" and
      ps: "popen_spawn w (take 14 (script h g (model r) (content (message c)))) ''ollama run gemma2'' = Inr p" and
      cc: "chat_create w (take 20 (script h g (model r) (content (message c))))
         router_client ''router-bert-0.46514'' hello = Inr r"
      by (rule run_all_DoneE)
    have gl: "globals s = bindings p r"
      by (simp add: s)
    have tr: "trace s = script h g (model r) (content (message c))"
      by (simp add: s)
    have "dom (globals s) =
           {''os'', ''userdata'', ''subprocess'', ''time'', ''process'', ''Controller'',
            ''client'', ''response''}"
      unfolding gl by (rule dom_bindings)
    moreover have "globals s ''os'' = Some (VModule ''os'')"
      and "globals s ''userdata'' = Some (VModule ''google.colab.userdata'')"
      and "globals s ''subprocess'' = Some (VModule ''subprocess'')"
      and "globals s ''time'' = Some (VModule ''time'')"
      and "globals s ''Controller'' = Some (VClass ''routellm.controller.Controller'')"
      unfolding gl by (simp_all add: bindings_def)
    moreover have "\<exists>p. popen_spawn w (take 14 (trace s)) ''ollama run gemma2'' = Inr p \<and>
           globals s ''process'' = Some (VProcess \<lparr>args = ''ollama run gemma2'', pid = p\<rparr>)"
    proof (intro exI conjI)
      show "popen_spawn w (take 14 (trace s)) ''ollama run gemma2'' = Inr p"
        using ps by (simp only: tr)
      show "globals s ''process'' = Some (VProcess \<lparr>args = ''ollama run gemma2'', pid = p\<rparr>)"
        unfolding gl by (simp add: bindings_def)
    qed
    moreover have "ControllerInit [''bert''] ''gemini/gemini-pro'' ''ollama_chat/gemma2'' \<in> set (trace s)"
      unfolding tr by (simp add: script_def)
    moreover have "globals s ''client'' =
        Some (VClient \<lparr>routers = [''bert''], strong_model = ''gemini/gemini-pro'',
                       weak_model = ''ollama_chat/gemma2''\<rparr>)"
      unfolding gl by (simp add: bindings_def router_client_def)
    moreover have "\<exists>r. chat_create w (take 20 (trace s)) router_client ''router-bert-0.46514'' hello = Inr r \<and>
           globals s ''response'' = Some (VResponse r)"
    proof (intro exI conjI)
      show "chat_create w (take 20 (trace s)) router_client ''router-bert-0.46514'' hello = Inr r"
        using cc by (simp only: tr)
      show "globals s ''response'' = Some (VResponse r)"
        unfolding gl by (simp add: bindings_def)
    qed
    ultimately show "dom (globals s) =
        {''os'', ''userdata'', ''subprocess'', ''time'', ''process'', ''Controller'',
         ''client'', ''response''} \<and>
      globals s ''os'' = Some (VModule ''os'') \<and>
      globals s ''userdata'' = Some (VModule ''google.colab.userdata'') \<and>
      globals s ''subprocess'' = Some (VModule ''subprocess'') \<and>
      globals s ''time'' = Some (VModule ''time'') \<and>
      globals s ''Controller'' = Some (VClass ''routellm.controller.Controller'') \<and>
      (\<exists>p. popen_spawn w (take 14 (trace s)) ''ollama run gemma2'' = Inr p \<and>
           globals s ''process'' = Some (VProcess \<lparr>args = ''ollama run gemma2'', pid = p\<rparr>)) \<and>
      ControllerInit [''bert''] ''gemini/gemini-pro'' ''ollama_chat/gemma2'' \<in> set (trace s) \<and>
      globals s ''client'' =
        Some (VClient \<lparr>routers = [''bert''], strong_model = ''gemini/gemini-pro'',
                       weak_model = ''ollama_chat/gemma2''\<rparr>) \<and>
      (\<exists>r. chat_create w (take 20 (trace s)) router_client ''router-bert-0.46514'' hello = Inr r \<and>
           globals s ''response'' = Some (VResponse r))"
      by (intro conjI)
  qed
qed

theorem bound_objects_external_witness:
  "completed (run_all world_ok Map.empty) \<and>
   bindings_ok (final (run_all world_ok Map.empty)) \<and>
   dom (globals (final (run_all world_ok Map.empty))) =
     {''os'', ''userdata'', ''subprocess'', ''time'', ''process'', ''Controller'',
      ''client'', ''response''}"
proof -
  note inst = bound_objects_external [of world_ok Map.empty "final (run_all world_ok Map.empty)"]
  have d: "run_all world_ok Map.empty = Done (final (run_all world_ok Map.empty))"
    by (simp add: run_all_world_ok)
  have c: "completed (run_all world_ok Map.empty)"
    by (simp add: run_all_world_ok)
  from inst have inv: "bindings_ok (final (run_all world_ok Map.empty))"
    by (rule conjunct1)
  from inst d have "dom (globals (final (run_all world_ok Map.empty))) =
     {''os'', ''userdata'', ''subprocess'', ''time'', ''process'', ''Controller'',
      ''client'', ''response''}"
    by (rule mp [OF conjunct2, THEN conjunct1])
  with c inv show ?thesis by (intro conjI)
qed

text \<open>
  Claim C8, as stated: for every pair of secret values \<open>h\<close> and \<open>g\<close> the
  credentials cell leaves \<^verbatim>\<open>HF_TOKEN\<close> set to \<open>h\<close> and \<^verbatim>\<open>GEMINI_API_KEY\<close> set to
  \<open>g\<close>. It fails for a secret with a NUL character in it: the store returns the value,
  \<^verbatim>\<open>os.environ\<close> refuses it with \<^verbatim>\<open>ValueError\<close>, the cell stops there and
  \<^verbatim>\<open>HF_TOKEN\<close> stays unset.
\<close>

theorem nul_secret_counterexample:
  "userdata_get world_nul_token [Import ''os'', Import ''google.colab.userdata''] ''HF_TOKEN'' =
     Inr nul_token \<and>
   exec_cell world_nul_token Credentials (initial Map.empty) =
     Raised ValueError
       \<lparr>environ = Map.empty,
        globals = [''os'' \<mapsto> VModule ''os'',
                   ''userdata'' \<mapsto> VModule ''google.colab.userdata''],
        trace = [Import ''os'', Import ''google.colab.userdata'', SecretGet ''HF_TOKEN'',
                 SetEnv ''HF_TOKEN'' nul_token]\<rparr> \<and>
   environ (final (exec_cell world_nul_token Credentials (initial Map.empty))) ''HF_TOKEN'' = None"
  by (simp add: initial_def stmt_defs world_nul_token_def world_ok_def nul_token_def)

text \<open>
  Claim C8, amended: the secret stored as \<^verbatim>\<open>GOOGLE_API_KEY\<close> reaches the libraries
  under the name \<^verbatim>\<open>GEMINI_API_KEY\<close>, while \<^verbatim>\<open>HF_TOKEN\<close> keeps its name, for every
  pair of secret values without a NUL character. Run in any state \<open>s0\<close>, if the two
  imports succeed and the store returns such values \<open>h\<close> for \<^verbatim>\<open>HF_TOKEN\<close> and \<open>g\<close>
  for \<^verbatim>\<open>GOOGLE_API_KEY\<close>, the credentials cell completes and leaves the environment of
  \<open>s0\<close> with \<^verbatim>\<open>HF_TOKEN\<close> set to \<open>h\<close> and \<^verbatim>\<open>GEMINI_API_KEY\<close> set to \<open>g\<close>, every
  other variable as it was; and no run of the notebook ever writes a variable named
  \<^verbatim>\<open>GOOGLE_API_KEY\<close>.
\<close>

theorem google_key_renamed:
  assumes "import_module w (trace s0) ''os'' = None"
    and "import_module w (trace s0 @ [Import ''os'']) ''google.colab.userdata'' = None"
    and "userdata_get w (trace s0 @ [Import ''os'', Import ''google.colab.userdata''])
           ''HF_TOKEN'' = Inr h"
    and "userdata_get w (trace s0 @ [Import ''os'', Import ''google.colab.userdata'',
                                     SecretGet ''HF_TOKEN'', SetEnv ''HF_TOKEN'' h])
           ''GOOGLE_API_KEY'' = Inr g"
    and "CHR 0x00 \<notin> set h"
    and "CHR 0x00 \<notin> set g"
  shows "(\<exists>s. exec_cell w Credentials s0 = Done s \<and>
              environ s = (environ s0)(''HF_TOKEN'' \<mapsto> h, ''GEMINI_API_KEY'' \<mapsto> g) \<and>
              (\<forall>k. k \<noteq> ''HF_TOKEN'' \<and> k \<noteq> ''GEMINI_API_KEY'' \<longrightarrow> environ s k = environ s0 k) \<and>
              environ s ''GOOGLE_API_KEY'' = environ s0 ''GOOGLE_API_KEY'') \<and>
         (\<forall>v. SetEnv ''GOOGLE_API_KEY'' v \<notin> set (trace (final (run_all w' env0))))"
proof (rule conjI)
  show "\<exists>s. exec_cell w Credentials s0 = Done s \<and>
              environ s = (environ s0)(''HF_TOKEN'' \<mapsto> h, ''GEMINI_API_KEY'' \<mapsto> g) \<and>
              (\<forall>k. k \<noteq> ''HF_TOKEN'' \<and> k \<noteq> ''GEMINI_API_KEY'' \<longrightarrow> environ s k = environ s0 k) \<and>
              environ s ''GOOGLE_API_KEY'' = environ s0 ''GOOGLE_API_KEY''"
    using assms by (simp add: stmt_defs)
next
  show "\<forall>v. SetEnv ''GOOGLE_API_KEY'' v \<notin> set (trace (final (run_all w' env0)))"
  proof (intro allI notI)
    fix v
    assume "SetEnv ''GOOGLE_API_KEY'' v \<in> set (trace (final (run_all w' env0)))"
    then obtain h' g' m c where "SetEnv ''GOOGLE_API_KEY'' v \<in> set (script h' g' m c)"
      by (rule in_trace_in_script)
    then show False by (simp add: script_def)
  qed
qed

theorem google_key_renamed_witness:
  "import_module world_ok (trace (initial Map.empty)) ''os'' = None \<and>
   userdata_get world_ok (trace (initial Map.empty) @ [Import ''os'', Import ''google.colab.userdata''])
     ''HF_TOKEN'' = Inr ''hf_secret'' \<and>
   CHR 0x00 \<notin> set ''hf_secret'' \<and> CHR 0x00 \<notin> set ''google_secret'' \<and>
   (\<exists>s. exec_cell world_ok Credentials (initial Map.empty) = Done s \<and>
        environ s = [''HF_TOKEN'' \<mapsto> ''hf_secret'', ''GEMINI_API_KEY'' \<mapsto> ''google_secret''] \<and>
        environ s ''GOOGLE_API_KEY'' = None)"
proof -
  have 1: "import_module world_ok (trace (initial Map.empty)) ''os'' = None"
    by (simp add: world_ok_def)
  have 2: "import_module world_ok (trace (initial Map.empty) @ [Import ''os''])
             ''google.colab.userdata'' = None"
    by (simp add: world_ok_def)
  have 3: "userdata_get world_ok
             (trace (initial Map.empty) @ [Import ''os'', Import ''google.colab.userdata''])
             ''HF_TOKEN'' = Inr ''hf_secret''"
    by (simp add: world_ok_def)
  have 4: "userdata_get world_ok
             (trace (initial Map.empty) @ [Import ''os'', Import ''google.colab.userdata'',
                SecretGet ''HF_TOKEN'', SetEnv ''HF_TOKEN'' ''hf_secret''])
             ''GOOGLE_API_KEY'' = Inr ''google_secret''"
    by (simp add: world_ok_def)
  have 5: "CHR 0x00 \<notin> set ''hf_secret''"
    by simp
  have 6: "CHR 0x00 \<notin> set ''google_secret''"
    by simp
  have e: "environ (initial Map.empty) = Map.empty"
    by (simp add: initial_def)
  from google_key_renamed [OF 1 2 3 4 5 6, of world_ok Map.empty] 1 3 5 6 show ?thesis
    unfolding e by blast
qed

text \<open>
  Claim C9. \<^verbatim>\<open>OPENAI_API_KEY\<close> is set to the constant \<^verbatim>\<open>dummy\<close>, whatever the secrets
  are, before the routing library is installed or entered. The cell does the same in
  every world; where \<^verbatim>\<open>os\<close> is imported it completes with the variable set to
  \<^verbatim>\<open>dummy\<close>. In every run no call that installs or enters \<^verbatim>\<open>routellm\<close> comes before
  that write, every write to \<^verbatim>\<open>OPENAI_API_KEY\<close> has the value \<^verbatim>\<open>dummy\<close>, and no
  secret of that name is ever read; a run that completes ends with the variable
  holding \<^verbatim>\<open>dummy\<close>.
\<close>

theorem openai_key_dummy:
  "exec_cell w OpenAIKey = exec_cell w' OpenAIKey \<and>
   (globals s0 ''os'' = Some (VModule ''os'') \<longrightarrow>
      exec_cell w OpenAIKey s0 =
        Done (s0\<lparr>environ := (environ s0)(''OPENAI_API_KEY'' \<mapsto> ''dummy''),
                 trace := trace s0 @ [SetEnv ''OPENAI_API_KEY'' ''dummy'']\<rparr>)) \<and>
   preceded_by (SetEnv ''OPENAI_API_KEY'' ''dummy'') uses_routellm
     (trace (final (run_all w env0))) \<and>
   (\<forall>v. SetEnv ''OPENAI_API_KEY'' v \<in> set (trace (final (run_all w env0))) \<longrightarrow> v = ''dummy'') \<and>
   SecretGet ''OPENAI_API_KEY'' \<notin> set (trace (final (run_all w env0))) \<and>
   (completed (run_all w env0) \<longrightarrow>
      environ (final (run_all w env0)) ''OPENAI_API_KEY'' = Some ''dummy'' \<and>
      SetEnv ''OPENAI_API_KEY'' ''dummy'' \<in> set (trace (final (run_all w env0))))"
proof -
  let ?tr = "trace (final (run_all w env0))"
  have "exec_cell w OpenAIKey = exec_cell w' OpenAIKey"
    by simp
  moreover have "globals s0 ''os'' = Some (VModule ''os'') \<longrightarrow>
      exec_cell w OpenAIKey s0 =
        Done (s0\<lparr>environ := (environ s0)(''OPENAI_API_KEY'' \<mapsto> ''dummy''),
                 trace := trace s0 @ [SetEnv ''OPENAI_API_KEY'' ''dummy'']\<rparr>)"
    by (simp add: stmt_defs)
  moreover have "preceded_by (SetEnv ''OPENAI_API_KEY'' ''dummy'') uses_routellm ?tr"
  proof -
    obtain h g m c where pre: "prefix ?tr (script h g m c)"
      by (rule trace_prefix)
    have "preceded_by (SetEnv ''OPENAI_API_KEY'' ''dummy'') uses_routellm (script h g m c)"
      by (simp add: script_def)
    with pre show ?thesis by (rule preceded_by_prefix)
  qed
  moreover have "\<forall>v. SetEnv ''OPENAI_API_KEY'' v \<in> set ?tr \<longrightarrow> v = ''dummy''"
  proof (intro allI impI)
    fix v
    assume "SetEnv ''OPENAI_API_KEY'' v \<in> set ?tr"
    then obtain h g m c where "SetEnv ''OPENAI_API_KEY'' v \<in> set (script h g m c)"
      by (rule in_trace_in_script)
    then show "v = ''dummy''" by (simp add: script_def)
  qed
  moreover have "SecretGet ''OPENAI_API_KEY'' \<notin> set ?tr"
  proof
    assume "SecretGet ''OPENAI_API_KEY'' \<in> set ?tr"
    then obtain h g m c where "SecretGet ''OPENAI_API_KEY'' \<in> set (script h g m c)"
      by (rule in_trace_in_script)
    then show False by (simp add: script_def)
  qed
  moreover have "completed (run_all w env0) \<longrightarrow>
      environ (final (run_all w env0)) ''OPENAI_API_KEY'' = Some ''dummy'' \<and>
      SetEnv ''OPENAI_API_KEY'' ''dummy'' \<in> set ?tr"
  proof
    assume "completed (run_all w env0)"
    then obtain s where d: "run_all w env0 = Done s"
      by (cases "run_all w env0") simp_all
    then obtain h g p r c cs where
      s: "s = \<lparr>environ = env0(''HF_TOKEN'' \<mapsto> h, ''GEMINI_API_KEY'' \<mapsto> g,
                               ''OPENAI_API_KEY'' \<mapsto> ''dummy''),
              globals = bindings p r,
              trace = script h g (model r) (content (message c))\<rparr>" and
      "choices r = c # cs" and
      "userdata_get w (take 2 (script h g (model r) (content (message c)))) ''HF_TOKEN'' = Inr h" and
      "userdata_get w (take 4 (script h g (model r) (content (message c)))) ''GOOGLE_API_KEY'' = Inr g" and
      "popen_spawn w (take 14 (script h g (model r) (content (message c)))) ''ollama run gemma2'' = Inr p" and
      "chat_create w (take 20 (script h g (model r) (content (message c))))
         router_client ''router-bert-0.46514'' hello = Inr r"
      by (rule run_all_DoneE)
    have "environ s ''OPENAI_API_KEY'' = Some ''dummy''"
      by (simp add: s)
    moreover have "SetEnv ''OPENAI_API_KEY'' ''dummy'' \<in> set (trace s)"
      by (simp add: s script_def)
    ultimately show "environ (final (run_all w env0)) ''OPENAI_API_KEY'' = Some ''dummy'' \<and>
      SetEnv ''OPENAI_API_KEY'' ''dummy'' \<in> set ?tr"
      by (simp add: d)
  qed
  ultimately show ?thesis by blast
qed

theorem openai_key_dummy_witness:
  "globals (final (run_all world_ok Map.empty)) ''os'' = Some (VModule ''os'') \<and>
   completed (run_all world_ok Map.empty) \<and>
   exec_cell world_ok OpenAIKey = exec_cell world_no_key OpenAIKey \<and>
   environ (final (run_all world_ok Map.empty)) ''OPENAI_API_KEY'' = Some ''dummy'' \<and>
   SetEnv ''OPENAI_API_KEY'' ''dummy'' \<in> set (trace (final (run_all world_ok Map.empty))) \<and>
   preceded_by (SetEnv ''OPENAI_API_KEY'' ''dummy'') uses_routellm
     (trace (final (run_all world_ok Map.empty)))"
proof -
  have "globals (final (run_all world_ok Map.empty)) ''os'' = Some (VModule ''os'')"
    by (simp add: run_all_world_ok bindings_def)
  moreover have "completed (run_all world_ok Map.empty)"
    by (simp add: run_all_world_ok)
  ultimately show ?thesis
    using openai_key_dummy [of world_ok world_no_key "final (run_all world_ok Map.empty)" Map.empty]
    by blast
qed

text \<open>
  Claim C10. The handle of \<^verbatim>\<open>ollama serve\<close> is lost when \<^verbatim>\<open>process\<close> is assigned
  again, and no background process is ever ended or awaited. After the cells that
  come before the second \<^verbatim>\<open>Popen\<close>, \<^verbatim>\<open>process\<close> holds the handle of
  \<^verbatim>\<open>ollama serve\<close>. The cell that starts \<^verbatim>\<open>ollama run gemma2\<close>, run in any state,
  changes the names only by binding \<^verbatim>\<open>process\<close> to the new handle. After it, and at
  the end of a run that completes, no name holds a handle of \<^verbatim>\<open>ollama serve\<close>. No
  run contains a \<open>Poll\<close>, \<open>Wait\<close>, \<open>Terminate\<close> or \<open>Kill\<close> call.
\<close>

theorem server_handle_overwritten:
  "(run_cells w (takeWhile (\<lambda>c. c \<noteq> RunGemma) notebook) (initial env0) = Done s1 \<longrightarrow>
      (\<exists>p. globals s1 ''process'' = Some (VProcess \<lparr>args = ''ollama serve'', pid = p\<rparr>))) \<and>
   (exec_cell w RunGemma s = Done s' \<longrightarrow>
      (\<exists>q. globals s' =
             (globals s)(''process'' \<mapsto> VProcess \<lparr>args = ''ollama run gemma2'', pid = q\<rparr>))) \<and>
   (run_cells w (takeWhile (\<lambda>c. c \<noteq> CheckOllama) notebook) (initial env0) = Done s2 \<longrightarrow>
      (\<exists>q. globals s2 ''process'' = Some (VProcess \<lparr>args = ''ollama run gemma2'', pid = q\<rparr>)) \<and>
      (\<forall>x p. globals s2 x \<noteq> Some (VProcess \<lparr>args = ''ollama serve'', pid = p\<rparr>))) \<and>
   (run_all w env0 = Done s3 \<longrightarrow>
      (\<forall>x p. globals s3 x \<noteq> Some (VProcess \<lparr>args = ''ollama serve'', pid = p\<rparr>))) \<and>
   filter is_process_control (trace (final (run_all w env0))) = []"
proof -
  have "run_cells w (takeWhile (\<lambda>c. c \<noteq> RunGemma) notebook) (initial env0) = Done s1 \<longrightarrow>
      (\<exists>p. globals s1 ''process'' = Some (VProcess \<lparr>args = ''ollama serve'', pid = p\<rparr>))"
    by (auto simp: run_cells_def notebook_def initial_def stmt_defs
        split: option.splits sum.splits)
  moreover have "exec_cell w RunGemma s = Done s' \<longrightarrow>
      (\<exists>q. globals s' =
             (globals s)(''process'' \<mapsto> VProcess \<lparr>args = ''ollama run gemma2'', pid = q\<rparr>))"
    by (auto simp: stmt_defs split: option.splits sum.splits if_splits)
  moreover have "run_cells w (takeWhile (\<lambda>c. c \<noteq> CheckOllama) notebook) (initial env0) = Done s2 \<longrightarrow>
      (\<exists>q. globals s2 ''process'' = Some (VProcess \<lparr>args = ''ollama run gemma2'', pid = q\<rparr>)) \<and>
      (\<forall>x p. globals s2 x \<noteq> Some (VProcess \<lparr>args = ''ollama serve'', pid = p\<rparr>))"
    by (auto simp: run_cells_def notebook_def initial_def stmt_defs
        split: option.splits sum.splits if_splits)
  moreover have "run_all w env0 = Done s3 \<longrightarrow>
      (\<forall>x p. globals s3 x \<noteq> Some (VProcess \<lparr>args = ''ollama serve'', pid = p\<rparr>))"
  proof
    assume "run_all w env0 = Done s3"
    then obtain h g p r c cs where
      s: "s3 = \<lparr>environ = env0(''HF_TOKEN'' \<mapsto> h, ''GEMINI_API_KEY'' \<mapsto> g,
                               ''OPENAI_API_KEY'' \<mapsto> ''dummy''),
              globals = bindings p r,
              trace = script h g (model r) (content (message c))\<rparr>" and
      "choices r = c # cs" and
      "userdata_get w (take 2 (script h g (model r) (content (message c)))) ''HF_TOKEN'' = Inr h" and
      "userdata_get w (take 4 (script h g (model r) (content (message c)))) ''GOOGLE_API_KEY'' = Inr g" and
      "popen_spawn w (take 14 (script h g (model r) (content (message c)))) ''ollama run gemma2'' = Inr p" and
      "chat_create w (take 20 (script h g (model r) (content (message c))))
         router_client ''router-bert-0.46514'' hello = Inr r"
      by (rule run_all_DoneE)
    have "globals s3 = bindings p r"
      by (simp add: s)
    then show "\<forall>x p. globals s3 x \<noteq> Some (VProcess \<lparr>args = ''ollama serve'', pid = p\<rparr>)"
      by (simp add: bindings_no_serve)
  qed
  moreover have "filter is_process_control (trace (final (run_all w env0))) = []"
  proof -
    obtain h g m c where pre: "prefix (trace (final (run_all w env0))) (script h g m c)"
      by (rule trace_prefix)
    have "filter is_process_control (script h g m c) = []"
      by (simp add: script_def)
    with pre show ?thesis by (rule filter_empty_prefix)
  qed
  ultimately show ?thesis by blast
qed

lemma upto_serve_world_ok:
  "run_cells world_ok (takeWhile (\<lambda>c. c \<noteq> RunGemma) notebook) (initial Map.empty) =
     Done \<lparr>environ = [''HF_TOKEN'' \<mapsto> ''hf_secret'', ''GEMINI_API_KEY'' \<mapsto> ''google_secret'',
                      ''OPENAI_API_KEY'' \<mapsto> ''dummy''],
           globals = [''os'' \<mapsto> VModule ''os'',
                      ''userdata'' \<mapsto> VModule ''google.colab.userdata'',
                      ''subprocess'' \<mapsto> VModule ''subprocess'',
                      ''time'' \<mapsto> VModule ''time'',
                      ''process'' \<mapsto> VProcess \<lparr>args = ''ollama serve'', pid = 101\<rparr>],
           trace = take 14 (script ''hf_secret'' ''google_secret'' [] [])\<rparr>"
  by (simp add: run_cells_def notebook_def initial_def stmt_defs script_def world_ok_def)

theorem server_handle_overwritten_witness:
  "completed (run_cells world_ok (takeWhile (\<lambda>c. c \<noteq> RunGemma) notebook) (initial Map.empty)) \<and>
   globals (final (run_cells world_ok (takeWhile (\<lambda>c. c \<noteq> RunGemma) notebook) (initial Map.empty)))
     ''process'' = Some (VProcess \<lparr>args = ''ollama serve'', pid = 101\<rparr>) \<and>
   completed (run_all world_ok Map.empty) \<and>
   globals (final (run_all world_ok Map.empty)) ''process'' =
     Some (VProcess \<lparr>args = ''ollama run gemma2'', pid = 102\<rparr>) \<and>
   (\<forall>x p. globals (final (run_all world_ok Map.empty)) x \<noteq>
            Some (VProcess \<lparr>args = ''ollama serve'', pid = p\<rparr>)) \<and>
   filter is_process_control (trace (final (run_all world_ok Map.empty))) = []"
proof -
  have a: "completed (run_cells world_ok (takeWhile (\<lambda>c. c \<noteq> RunGemma) notebook) (initial Map.empty))"
    by (simp add: upto_serve_world_ok)
  have b: "globals (final (run_cells world_ok (takeWhile (\<lambda>c. c \<noteq> RunGemma) notebook) (initial Map.empty)))
     ''process'' = Some (VProcess \<lparr>args = ''ollama serve'', pid = 101\<rparr>)"
    by (simp add: upto_serve_world_ok)
  have c: "completed (run_all world_ok Map.empty)"
    by (simp add: run_all_world_ok)
  have d: "run_all world_ok Map.empty = Done (final (run_all world_ok Map.empty))"
    by (simp add: run_all_world_ok)
  have e: "globals (final (run_all world_ok Map.empty)) ''process'' =
     Some (VProcess \<lparr>args = ''ollama run gemma2'', pid = 102\<rparr>)"
    by (simp add: run_all_world_ok bindings_def)
  from server_handle_overwritten [of world_ok Map.empty _ _ _ _ "final (run_all world_ok Map.empty)"]
    a b c d e
  show ?thesis by blast
qed

text \<open>
  Claim C6. The calibration step has no effect on the chat request that follows. The
  calibration cell is one \<^verbatim>\<open>!\<close> line (router \<^verbatim>\<open>bert\<close>, strong-model share
  \<^verbatim>\<open>0.3\<close>): it completes in every state and changes neither the environment nor any
  name. Running the notebook without that cell gives the same chat calls as running
  all of it: the same number of them, on the same client, with the model argument
  \<^verbatim>\<open>router-bert-0.46514\<close> and the same message; the same holds for the two cells run
  from any state. What the world answers to the request may differ between the two
  runs; the request does not.
\<close>

theorem calibration_leaves_request_unchanged:
  "filter is_chat_create
     (trace (final (run_cells w (filter (\<lambda>c. c \<noteq> Calibrate) notebook) (initial env0)))) =
   filter is_chat_create (trace (final (run_all w env0))) \<and>
   set (filter is_chat_create (trace (final (run_all w env0)))) \<subseteq>
     {ChatCreate router_client ''router-bert-0.46514'' [\<lparr>role = ''user'', content = ''Hello!''\<rparr>]} \<and>
   System calibrate_cmd \<notin>
     set (trace (final (run_cells w (filter (\<lambda>c. c \<noteq> Calibrate) notebook) (initial env0)))) \<and>
   exec_cell w Calibrate s = Done (s\<lparr>trace := trace s @ [System calibrate_cmd]\<rparr>) \<and>
   filter is_chat_create (trace (final (run_cells w [Calibrate, Chat] s))) =
   filter is_chat_create (trace (final (run_cells w [Chat] s)))"
proof -
  have "set (filter is_chat_create (trace (final (run_all w env0)))) \<subseteq>
     {ChatCreate router_client ''router-bert-0.46514'' [\<lparr>role = ''user'', content = ''Hello!''\<rparr>]}"
  proof
    fix ev
    assume "ev \<in> set (filter is_chat_create (trace (final (run_all w env0))))"
    then have in_tr: "ev \<in> set (trace (final (run_all w env0)))" and chat: "is_chat_create ev"
      by simp_all
    from in_tr obtain h g m c where "ev \<in> set (script h g m c)"
      by (rule in_trace_in_script)
    from chat_in_script [OF this chat]
    show "ev \<in> {ChatCreate router_client ''router-bert-0.46514''
                    [\<lparr>role = ''user'', content = ''Hello!''\<rparr>]}"
      by (simp add: hello_def)
  qed
  moreover have "System calibrate_cmd \<notin>
     set (trace (final (run_cells w (filter (\<lambda>c. c \<noteq> Calibrate) notebook) (initial env0))))"
  proof
    assume "System calibrate_cmd \<in>
      set (trace (final (run_cells w (filter (\<lambda>c. c \<noteq> Calibrate) notebook) (initial env0))))"
    from run_cells_calibration_event [OF this] show False
      by (simp add: initial_def)
  qed
  ultimately show ?thesis
    using chat_calls_without_calibration [of w env0] calibrate_frame [of w s]
      calibrate_then_chat [of w s]
    by blast
qed

theorem calibration_leaves_request_unchanged_witness:
  "completed (run_all world_needs_calibration Map.empty) \<and>
   \<not> completed (run_cells world_needs_calibration (filter (\<lambda>c. c \<noteq> Calibrate) notebook)
                 (initial Map.empty)) \<and>
   filter is_chat_create (trace (final (run_all world_needs_calibration Map.empty))) =
     [ChatCreate router_client ''router-bert-0.46514'' hello] \<and>
   filter is_chat_create
     (trace (final (run_cells world_needs_calibration (filter (\<lambda>c. c \<noteq> Calibrate) notebook)
                      (initial Map.empty)))) =
     [ChatCreate router_client ''router-bert-0.46514'' hello]"
proof -
  have a: "completed (run_all world_needs_calibration Map.empty)"
    by (simp add: run_all_world_needs_calibration)
  have b: "\<not> completed (run_cells world_needs_calibration
                 (filter (\<lambda>c. c \<noteq> Calibrate) notebook) (initial Map.empty))"
    by (simp add: skip_run_world_needs_calibration)
  have c: "filter is_chat_create (trace (final (run_all world_needs_calibration Map.empty))) =
     [ChatCreate router_client ''router-bert-0.46514'' hello]"
    by (simp add: run_all_world_needs_calibration script_def)
  from calibration_leaves_request_unchanged [of world_needs_calibration Map.empty] a b c
  show ?thesis by simp
qed

end
